theory Spec2Isabelle
  imports Complex_Main "HOL-Library.Log_Nat" "HOL-Library.Sublist"
begin

section \<open>Consent requests: the model (src/src/models/ConsentRequest.js)\<close>

text \<open>
  The schema's \<^verbatim>\<open>status\<close> field is a closed enum of five strings; it is only ever
  assigned one of these literals.  Dates are milliseconds since the epoch.  The
  simulated settlement record written by the approve route is \<open>blockchain_data\<close>.
\<close>

datatype status = Pending | Approved | Denied | Expired | Revoked

record blockchain_data =
  transactionHash :: string
  blockNumber :: nat
  gasUsed :: nat
  bc_timestamp :: int

record consent_request =
  requester_address :: string
  requester_ensName :: "string option"
  requester_displayName :: "string option"
  dataOwner_address :: string
  dataOwner_ensName :: "string option"
  dataType :: string
  purpose :: string
  accessLevel :: string
  status :: status
  blockchainData :: "blockchain_data option"
  expiresAt :: "int option"
  respondedAt :: "int option"
  responseReason :: "string option"
  isActive :: bool

text \<open>The collection of stored documents, keyed by document id.\<close>

type_synonym collection = "nat \<rightharpoonup> consent_request"

text \<open>
  \<^verbatim>\<open>virtual('isExpired')\<close>: false when \<^verbatim>\<open>expiresAt\<close> is missing, otherwise
  \<^verbatim>\<open>new Date() > this.expiresAt\<close>.
\<close>

definition isExpired :: "int \<Rightarrow> consent_request \<Rightarrow> bool" where
  "isExpired now r = (case expiresAt r of None \<Rightarrow> False | Some e \<Rightarrow> now > e)"

text \<open>\<^verbatim>\<open>pre('save')\<close>: a request that is expired and still pending becomes expired.\<close>

definition pre_save :: "int \<Rightarrow> consent_request \<Rightarrow> consent_request" where
  "pre_save now r =
     (if isExpired now r \<and> status r = Pending then r\<lparr>status := Expired\<rparr> else r)"

text \<open>
  \<^verbatim>\<open>this.save()\<close> on a document that is already stored: the hook runs, then the
  document is written under its id.  The saved document is returned with the new
  collection.
\<close>

definition save :: "int \<Rightarrow> collection \<Rightarrow> nat \<Rightarrow> consent_request \<Rightarrow> consent_request \<times> collection" where
  "save now db i r = (let r' = pre_save now r in (r', db(i \<mapsto> r')))"

text \<open>
  The document methods.  \<^verbatim>\<open>reason = ''\<close> is a default parameter: an absent
  reason is stored as the empty string.  None of them looks at the current status.
\<close>

definition reason_or_empty :: "string option \<Rightarrow> string" where
  "reason_or_empty reason = (case reason of None \<Rightarrow> [] | Some s \<Rightarrow> s)"

definition approve :: "int \<Rightarrow> collection \<Rightarrow> nat \<Rightarrow> string option \<Rightarrow> consent_request \<Rightarrow> consent_request \<times> collection" where
  "approve now db i reason r =
     save now db i (r\<lparr>status := Approved, respondedAt := Some now,
                      responseReason := Some (reason_or_empty reason)\<rparr>)"

definition deny :: "int \<Rightarrow> collection \<Rightarrow> nat \<Rightarrow> string option \<Rightarrow> consent_request \<Rightarrow> consent_request \<times> collection" where
  "deny now db i reason r =
     save now db i (r\<lparr>status := Denied, respondedAt := Some now,
                      responseReason := Some (reason_or_empty reason)\<rparr>)"

definition revoke :: "int \<Rightarrow> collection \<Rightarrow> nat \<Rightarrow> string option \<Rightarrow> consent_request \<Rightarrow> consent_request \<times> collection" where
  "revoke now db i reason r =
     save now db i (r\<lparr>status := Revoked, respondedAt := Some now,
                      responseReason := Some (reason_or_empty reason)\<rparr>)"

definition setBlockchainData :: "int \<Rightarrow> collection \<Rightarrow> nat \<Rightarrow> blockchain_data \<Rightarrow> consent_request \<Rightarrow> consent_request \<times> collection" where
  "setBlockchainData now db i bd r = save now db i (r\<lparr>blockchainData := Some bd\<rparr>)"

section \<open>Users (src/src/models/User.js)\<close>

record ssi_credential =
  cred_type :: string
  cred_issuer :: string
  credentialHash :: string
  isRevoked :: bool

record user =
  user_address :: string
  user_ensName :: "string option"
  user_displayName :: "string option"
  ssiCredentials :: "ssi_credential list"

text \<open>
  The schema setters \<^verbatim>\<open>lowercase: true, trim: true\<close> of an address.  Addresses are
  ASCII, so \<^verbatim>\<open>toLowerCase\<close> is modelled on the letters A to Z and \<^verbatim>\<open>trim\<close> on
  the ASCII white space.
\<close>

definition toLowerCase :: "string \<Rightarrow> string" where
  "toLowerCase s =
     map (\<lambda>c. case map_of (zip ''ABCDEFGHIJKLMNOPQRSTUVWXYZ'' ''abcdefghijklmnopqrstuvwxyz'') c of
                None \<Rightarrow> c
              | Some l \<Rightarrow> l) s"

definition is_space :: "char \<Rightarrow> bool" where
  "is_space c = (c \<in> set [CHR '' '', CHR 0x09, CHR 0x0A, CHR 0x0B, CHR 0x0C, CHR 0x0D])"

definition trim :: "string \<Rightarrow> string" where
  "trim s = rev (dropWhile is_space (rev (dropWhile is_space s)))"

text \<open>
  The user collection is keyed by the stored address, which is unique, lower case and
  trimmed.  \<^verbatim>\<open>findByAddress\<close> lowers its argument, and the query
  \<^verbatim>\<open>findOne({ address })\<close> is cast with the setters of the path, which trim it.
\<close>

type_synonym user_collection = "string \<rightharpoonup> user"

definition findByAddress :: "user_collection \<Rightarrow> string \<Rightarrow> user option" where
  "findByAddress users a = users (trim (toLowerCase (toLowerCase a)))"

text \<open>
  \<^verbatim>\<open>revokeCredential\<close>: the first credential with the given hash gets its flag set;
  when there is none the method throws.
\<close>

fun mark_revoked :: "string \<Rightarrow> ssi_credential list \<Rightarrow> ssi_credential list option" where
  "mark_revoked h [] = None"
| "mark_revoked h (c # cs) =
     (if credentialHash c = h then Some (c\<lparr>isRevoked := True\<rparr> # cs)
      else map_option ((#) c) (mark_revoked h cs))"

definition revokeCredential :: "user \<Rightarrow> string \<Rightarrow> string + user" where
  "revokeCredential u h =
     (case mark_revoked h (ssiCredentials u) of
        None \<Rightarrow> Inl ''Credential not found''
      | Some cs \<Rightarrow> Inr (u\<lparr>ssiCredentials := cs\<rparr>))"

section \<open>Notifications (emitToUser in src/unnamed/part_005)\<close>

text \<open>
  The exceptions of the engine that the model needs.
\<close>

datatype js_exception = TypeError | RangeError | ReferenceError

text \<open>
  \<^verbatim>\<open>connectedUsers\<close> maps a lower-case address to the id of its socket.
  \<^verbatim>\<open>emitToUser\<close> looks the addressee up; when there is a socket id (a non-empty
  string) it evaluates \<^verbatim>\<open>io.to(socketId)\<close>, and \<^verbatim>\<open>io\<close> is bound only inside
  \<^verbatim>\<open>setupSocketHandlers\<close>, so the call throws a \<^verbatim>\<open>ReferenceError\<close>.  The result
  is the exception thrown, if any.
\<close>

type_synonym connections = "string \<rightharpoonup> string"

definition emitToUser :: "connections \<Rightarrow> string \<Rightarrow> js_exception option" where
  "emitToUser connectedUsers userAddress =
     (case connectedUsers (toLowerCase userAddress) of
        None \<Rightarrow> None
      | Some socketId \<Rightarrow> if socketId = [] then None else Some ReferenceError)"

section \<open>Consent requests: the routes (src/unnamed/part_001)\<close>

text \<open>
  A route answers with an HTTP status code and an error message, or with the request
  document.  The caller is \<^verbatim>\<open>req.user.address\<close>, set by the authentication
  middleware.  The random settlement record of the approve route is a parameter.
  Request ids are well-formed document ids.  Each transition route notifies the
  requester after the document is saved; an exception thrown there is caught by the
  route, which answers 500, the saved document staying as it is.
\<close>

datatype http_error = HttpError nat string

definition not_found :: http_error where
  "not_found = HttpError 404 ''Consent request not found''"

definition not_pending :: http_error where
  "not_pending = HttpError 400 ''Request is not pending approval''"

definition not_approved :: http_error where
  "not_approved = HttpError 400 ''Request is not approved''"

type_synonym route_result = "(http_error + consent_request) \<times> collection"

definition approve_route :: "int \<Rightarrow> blockchain_data \<Rightarrow> connections \<Rightarrow> collection \<Rightarrow> nat \<Rightarrow> string \<Rightarrow> string option \<Rightarrow> route_result" where
  "approve_route now bd connectedUsers db requestId userAddress reason =
     (case db requestId of
        None \<Rightarrow> (Inl not_found, db)
      | Some r \<Rightarrow>
          if dataOwner_address r \<noteq> userAddress
          then (Inl (HttpError 403 ''Only the data owner can approve this request''), db)
          else if status r \<noteq> Pending then (Inl not_pending, db)
          else (let (r1, db1) = approve now db requestId reason r;
                    (r2, db2) = setBlockchainData now db1 requestId bd r1
                in case emitToUser connectedUsers (requester_address r2) of
                     Some e \<Rightarrow> (Inl (HttpError 500 ''Failed to approve consent request''), db2)
                   | None \<Rightarrow> (Inr r2, db2)))"

definition deny_route :: "int \<Rightarrow> connections \<Rightarrow> collection \<Rightarrow> nat \<Rightarrow> string \<Rightarrow> string option \<Rightarrow> route_result" where
  "deny_route now connectedUsers db requestId userAddress reason =
     (case db requestId of
        None \<Rightarrow> (Inl not_found, db)
      | Some r \<Rightarrow>
          if dataOwner_address r \<noteq> userAddress
          then (Inl (HttpError 403 ''Only the data owner can deny this request''), db)
          else if status r \<noteq> Pending then (Inl not_pending, db)
          else (let (r1, db1) = deny now db requestId reason r
                in case emitToUser connectedUsers (requester_address r1) of
                     Some e \<Rightarrow> (Inl (HttpError 500 ''Failed to deny consent request''), db1)
                   | None \<Rightarrow> (Inr r1, db1)))"

definition revoke_route :: "int \<Rightarrow> connections \<Rightarrow> collection \<Rightarrow> nat \<Rightarrow> string \<Rightarrow> string option \<Rightarrow> route_result" where
  "revoke_route now connectedUsers db requestId userAddress reason =
     (case db requestId of
        None \<Rightarrow> (Inl not_found, db)
      | Some r \<Rightarrow>
          if dataOwner_address r \<noteq> userAddress
          then (Inl (HttpError 403 ''Only the data owner can revoke this request''), db)
          else if status r \<noteq> Approved then (Inl not_approved, db)
          else (let (r1, db1) = revoke now db requestId reason r
                in case emitToUser connectedUsers (requester_address r1) of
                     Some e \<Rightarrow> (Inl (HttpError 500 ''Failed to revoke consent request''), db1)
                   | None \<Rightarrow> (Inr r1, db1)))"

text \<open>\<^verbatim>\<open>GET /:requestId\<close>: the stored document is returned as found; nothing is saved.\<close>

definition get_route :: "collection \<Rightarrow> nat \<Rightarrow> string \<Rightarrow> route_result" where
  "get_route db requestId userAddress =
     (case db requestId of
        None \<Rightarrow> (Inl not_found, db)
      | Some r \<Rightarrow>
          if dataOwner_address r \<noteq> userAddress \<and> requester_address r \<noteq> userAddress
          then (Inl (HttpError 403 ''Access denied''), db)
          else (Inr r, db))"

text \<open>The three transition routes under one name, with the status each requires and sets.\<close>

datatype action = Approve | Deny | Revoke

fun run_action :: "action \<Rightarrow> int \<Rightarrow> blockchain_data \<Rightarrow> connections \<Rightarrow> collection \<Rightarrow> nat \<Rightarrow> string \<Rightarrow> string option \<Rightarrow> route_result" where
  "run_action Approve now bd cu db i u reason = approve_route now bd cu db i u reason"
| "run_action Deny now bd cu db i u reason = deny_route now cu db i u reason"
| "run_action Revoke now bd cu db i u reason = revoke_route now cu db i u reason"

fun required_status :: "action \<Rightarrow> status" where
  "required_status Approve = Pending"
| "required_status Deny = Pending"
| "required_status Revoke = Approved"

fun target_status :: "action \<Rightarrow> status" where
  "target_status Approve = Approved"
| "target_status Deny = Denied"
| "target_status Revoke = Revoked"

fun invalid_transition :: "action \<Rightarrow> http_error" where
  "invalid_transition Approve = not_pending"
| "invalid_transition Deny = not_pending"
| "invalid_transition Revoke = not_approved"

text \<open>The transition graph of the specification.\<close>

fun allowed :: "status \<Rightarrow> status \<Rightarrow> bool" where
  "allowed Pending Approved = True"
| "allowed Pending Denied = True"
| "allowed Pending Expired = True"
| "allowed Approved Revoked = True"
| "allowed _ _ = False"

section \<open>Consent requests: creation (src/unnamed/part_001) and the expiry sweep (src/unnamed/part_005)\<close>

text \<open>
  The body of \<^verbatim>\<open>POST /request\<close>.  A string field is falsy when it is absent or
  empty.  For \<^verbatim>\<open>expiresAt\<close>: \<open>NoDate\<close> is a falsy value, \<open>InvalidDate\<close> a truthy
  value that \<^verbatim>\<open>new Date\<close> turns into an invalid date, \<open>DateAt t\<close> a truthy value
  that \<^verbatim>\<open>new Date\<close> turns into the instant \<open>t\<close>.
\<close>

datatype date_input = NoDate | InvalidDate | DateAt int

record request_body =
  body_dataOwnerAddress :: "string option"
  body_dataType :: "string option"
  body_purpose :: "string option"
  body_accessLevel :: "string option"
  body_expiresAt :: date_input

definition falsy :: "string option \<Rightarrow> bool" where
  "falsy v = (v = None \<or> v = Some [])"

definition text_of :: "string option \<Rightarrow> string" where
  "text_of v = (case v of None \<Rightarrow> [] | Some s \<Rightarrow> s)"

text \<open>
  \<^verbatim>\<open>new ConsentRequest({...})\<close>: setters and defaults applied.  An invalid date
  does not cast, so the path stays unset and validation reports it.
\<close>

definition new_ConsentRequest :: "string \<Rightarrow> user \<Rightarrow> string \<Rightarrow> user \<Rightarrow> request_body \<Rightarrow> consent_request" where
  "new_ConsentRequest requesterAddress requester dataOwnerAddress dataOwner body =
     \<lparr>requester_address = trim (toLowerCase requesterAddress),
      requester_ensName = user_ensName requester,
      requester_displayName = user_displayName requester,
      dataOwner_address = trim (toLowerCase dataOwnerAddress),
      dataOwner_ensName = user_ensName dataOwner,
      dataType = text_of (body_dataType body),
      purpose = text_of (body_purpose body),
      accessLevel = (case body_accessLevel body of None \<Rightarrow> ''read'' | Some s \<Rightarrow> s),
      status = Pending,
      blockchainData = None,
      expiresAt = (case body_expiresAt body of DateAt t \<Rightarrow> Some t | _ \<Rightarrow> None),
      respondedAt = None,
      responseReason = None,
      isActive = True\<rparr>"

definition dataType_enum :: "string list" where
  "dataType_enum =
     [''medical'', ''financial'', ''identity'', ''education'', ''location'', ''biometric'', ''custom'']"

definition accessLevel_enum :: "string list" where
  "accessLevel_enum = [''read'', ''write'', ''delete'']"

text \<open>Schema validation of a new document: required paths, enums, \<^verbatim>\<open>maxlength\<close>.\<close>

definition validate :: "consent_request \<Rightarrow> bool" where
  "validate r =
     (requester_address r \<noteq> [] \<and> dataOwner_address r \<noteq> []
      \<and> dataType r \<in> set dataType_enum
      \<and> purpose r \<noteq> [] \<and> length (purpose r) \<le> 500
      \<and> accessLevel r \<in> set accessLevel_enum
      \<and> expiresAt r \<noteq> None)"

text \<open>
  \<^verbatim>\<open>POST /request\<close>.  The id of the new document is chosen by the database and is a
  parameter.  A validation failure is thrown by \<^verbatim>\<open>save\<close> and answered by the
  route's \<^verbatim>\<open>catch\<close> with status 500; so is an exception of the notification of
  the owner, which comes after the document is stored.
\<close>

definition create_route :: "int \<Rightarrow> connections \<Rightarrow> user_collection \<Rightarrow> collection \<Rightarrow> nat \<Rightarrow> string \<Rightarrow> request_body \<Rightarrow> route_result" where
  "create_route now connectedUsers users db newId requesterAddress body =
     (if falsy (body_dataOwnerAddress body) \<or> falsy (body_dataType body)
         \<or> falsy (body_purpose body) \<or> body_expiresAt body = NoDate
      then (Inl (HttpError 400 ''Missing required fields''), db)
      else
        (case findByAddress users (text_of (body_dataOwnerAddress body)) of
           None \<Rightarrow> (Inl (HttpError 404 ''Data owner not found''), db)
         | Some dataOwner \<Rightarrow>
             (case findByAddress users requesterAddress of
                None \<Rightarrow> (Inl (HttpError 404 ''Requester not found''), db)
              | Some requester \<Rightarrow>
                  (let r = new_ConsentRequest requesterAddress requester
                             (text_of (body_dataOwnerAddress body)) dataOwner body
                   in if \<not> validate r
                      then (Inl (HttpError 500 ''Failed to create consent request''), db)
                      else (let (r', db') = save now db newId r
                            in case emitToUser connectedUsers
                                      (text_of (body_dataOwnerAddress body)) of
                                 Some e \<Rightarrow>
                                   (Inl (HttpError 500 ''Failed to create consent request''), db')
                               | None \<Rightarrow> (Inr r', db'))))))"

text \<open>
  The periodic cleanup (in the socket handlers, every minute): the query
  \<^verbatim>\<open>findExpiredRequests\<close> selects the pending requests whose expiry is before now;
  each is set to expired and saved.
\<close>

definition findExpiredRequests :: "int \<Rightarrow> consent_request \<Rightarrow> bool" where
  "findExpiredRequests now r =
     (status r = Pending \<and> (case expiresAt r of None \<Rightarrow> False | Some e \<Rightarrow> e < now))"

definition cleanupExpired :: "int \<Rightarrow> collection \<Rightarrow> collection" where
  "cleanupExpired now db =
     (\<lambda>i. case db i of
             None \<Rightarrow> None
           | Some r \<Rightarrow>
               if findExpiredRequests now r then Some (pre_save now (r\<lparr>status := Expired\<rparr>))
               else Some r)"

section \<open>Proof service (src/src/services/zkp-service.js)\<close>

text \<open>
  SHA-256 with hex output is a parameter \<open>H\<close> of every function that hashes.  A proof is
  an untyped object: the fields the verifiers read are optional, the other hashed fields
  are kept by name.  The proof's own \<^verbatim>\<open>isValid\<close> is kept as its truth value.
\<close>

record zk_proof =
  accessHash :: "string option"
  commitments :: "(string \<times> string) list"
  proof_isValid :: bool
  timestamp :: "int option"
  nonce :: "string option"

text \<open>\<^verbatim>\<open>crypto.randomBytes(n).toString('hex')\<close>, the entropy source being a parameter.\<close>

definition hex_digit :: "nat \<Rightarrow> char" where
  "hex_digit d = ''0123456789abcdef'' ! (d mod 16)"

definition hex_byte :: "nat \<Rightarrow> string" where
  "hex_byte b = [hex_digit (b div 16), hex_digit b]"

definition toHex :: "nat list \<Rightarrow> string" where
  "toHex bs = concat (map hex_byte bs)"

definition randomBytes :: "nat \<Rightarrow> (nat \<Rightarrow> nat) \<Rightarrow> nat list" where
  "randomBytes n rnd = map (\<lambda>i. rnd i mod 256) [0..<n]"

definition generateDataAccessProof :: "(string \<Rightarrow> string) \<Rightarrow> (nat \<Rightarrow> nat) \<Rightarrow> int \<Rightarrow> string \<Rightarrow> string \<Rightarrow> string \<Rightarrow> zk_proof" where
  "generateDataAccessProof H rnd now userId dataType' accessLevel' =
     \<lparr>accessHash = Some (H (userId @ ''-'' @ dataType' @ ''-'' @ accessLevel')),
      commitments = [(''userId'', H userId), (''dataType'', H dataType'),
                     (''accessLevel'', H accessLevel')],
      proof_isValid = False,
      timestamp = Some now,
      nonce = Some (toHex (randomBytes 16 rnd))\<rparr>"

text \<open>
  \<^verbatim>\<open>verifyDataAccessProof\<close>.  The conjunction is evaluated left to right; reading
  the length of a missing nonce throws, and the \<^verbatim>\<open>catch\<close> answers with both flags
  false.
\<close>

record access_check =
  ac_isValid :: bool
  ac_proof :: "zk_proof option"
  accessGranted :: bool
  ac_error :: "js_exception option"

definition verifyDataAccessProof :: "(string \<Rightarrow> string) \<Rightarrow> int \<Rightarrow> zk_proof \<Rightarrow> string \<Rightarrow> string \<Rightarrow> string \<Rightarrow> access_check" where
  "verifyDataAccessProof H now p userId dataType' accessLevel' =
     (let expectedHash = H (userId @ ''-'' @ dataType' @ ''-'' @ accessLevel') in
      if accessHash p = Some expectedHash
         \<and> (case timestamp p of None \<Rightarrow> False | Some t \<Rightarrow> t > now - 60 * 60 * 1000)
      then (case nonce p of
              None \<Rightarrow> \<lparr>ac_isValid = False, ac_proof = None, accessGranted = False,
                        ac_error = Some TypeError\<rparr>
            | Some n \<Rightarrow> \<lparr>ac_isValid = (length n = 32), ac_proof = Some p,
                          accessGranted = (length n = 32), ac_error = None\<rparr>)
      else \<lparr>ac_isValid = False, ac_proof = Some p, accessGranted = False, ac_error = None\<rparr>)"

text \<open>
  \<^verbatim>\<open>verifyProof\<close>.  The verification data is a value parsed from a JSON request body
  (both callers pass one), which \<^verbatim>\<open>JSON.stringify\<close>, the parameter \<open>stringify\<close>,
  always turns into a string.  The hash is computed and not used.
\<close>

record 'd proof_check =
  pc_isValid :: bool
  pc_proof :: "zk_proof option"
  pc_verificationData :: "'d option"
  pc_error :: "js_exception option"

definition verifyProof :: "(string \<Rightarrow> string) \<Rightarrow> ('d \<Rightarrow> string) \<Rightarrow> int \<Rightarrow> zk_proof \<Rightarrow> 'd \<Rightarrow> 'd proof_check" where
  "verifyProof H stringify now p verificationData =
     (let expectedHash = H (stringify verificationData) in
      if proof_isValid p
         \<and> (case timestamp p of None \<Rightarrow> False | Some t \<Rightarrow> t > now - 24 * 60 * 60 * 1000)
      then (case nonce p of
              None \<Rightarrow> \<lparr>pc_isValid = False, pc_proof = None, pc_verificationData = None,
                        pc_error = Some TypeError\<rparr>
            | Some n \<Rightarrow> \<lparr>pc_isValid = (length n = 32), pc_proof = Some p,
                          pc_verificationData = Some verificationData, pc_error = None\<rparr>)
      else \<lparr>pc_isValid = False, pc_proof = Some p,
             pc_verificationData = Some verificationData, pc_error = None\<rparr>)"

subsection \<open>Merkle tree\<close>

text \<open>One pass of the \<^verbatim>\<open>for\<close> loop: neighbours are hashed in pairs, a last single
  leaf with itself.\<close>

fun pair_level :: "(string \<Rightarrow> string) \<Rightarrow> string list \<Rightarrow> string list" where
  "pair_level H [] = []"
| "pair_level H [left] = [H (left @ left)]"
| "pair_level H (left # right # rest) = H (left @ right) # pair_level H rest"

text \<open>
  \<^verbatim>\<open>buildMerkleTree\<close>.  On the empty list the loop adds nothing and the function
  calls itself on the empty list again, until the call stack is exhausted: the engine
  throws a \<^verbatim>\<open>RangeError\<close>.
\<close>

function buildMerkleTree :: "(string \<Rightarrow> string) \<Rightarrow> string list \<Rightarrow> js_exception + string" where
  "buildMerkleTree H ls =
     (if length ls = 1 then Inr (hd ls)
      else if ls = [] then Inl RangeError
      else buildMerkleTree H (pair_level H ls))"
  by pat_completeness auto
termination
proof (relation "measure (\<lambda>(H, ls). length ls)")
  fix H :: "string \<Rightarrow> string" and ls :: "string list"
  have len: "length (pair_level H xs) = (length xs + 1) div 2" for xs
    by (induction H xs rule: pair_level.induct) simp_all
  assume "length ls \<noteq> 1" and "ls \<noteq> []"
  then have "2 \<le> length ls" by (cases ls) (auto simp: Suc_le_eq)
  then show "((H, pair_level H ls), (H, ls)) \<in> measure (\<lambda>(H, ls). length ls)"
    by (simp add: len)
qed simp

declare buildMerkleTree.simps [simp del]

record merkle_tree =
  merkle_root :: string
  leaves :: "string list"
  treeHeight :: int

text \<open>
  \<^verbatim>\<open>generateMerkleTree\<close>; \<open>stringify\<close> is \<^verbatim>\<open>JSON.stringify\<close> on the items.
  \<^verbatim>\<open>Math.ceil(Math.log2(n))\<close> is taken in exact arithmetic (\<open>ceillog2\<close>); it is only
  reached for a non-empty list.
\<close>

definition generateMerkleTree :: "(string \<Rightarrow> string) \<Rightarrow> ('a \<Rightarrow> string) \<Rightarrow> 'a list \<Rightarrow> js_exception + merkle_tree" where
  "generateMerkleTree H stringify dataArray =
     (let ls = map (\<lambda>d. H (stringify d)) dataArray in
      case buildMerkleTree H ls of
        Inl e \<Rightarrow> Inl e
      | Inr r \<Rightarrow> Inr \<lparr>merkle_root = r, leaves = ls, treeHeight = int (ceillog2 (length ls))\<rparr>)"

text \<open>
  The level above a level, as the specification words it, by position: entry \<open>i\<close> is
  the hash of entries \<open>2i\<close> and \<open>2i + 1\<close> joined, the last entry taken twice when
  the level has odd cardinality.
\<close>

definition level_above :: "(string \<Rightarrow> string) \<Rightarrow> string list \<Rightarrow> string list" where
  "level_above H ls =
     map (\<lambda>i. H (ls ! (2 * i) @ (if 2 * i + 1 < length ls then ls ! (2 * i + 1) else ls ! (2 * i))))
         [0..<(length ls + 1) div 2]"

section \<open>Security middleware (class SecurityMiddleware in src/src/middleware/auth.js)\<close>

text \<open>
  A field of the request body: missing (or another falsy value that is not a string), a
  string, or a truthy value that is not a string.  Hashing a value that is not a string
  throws a \<^verbatim>\<open>TypeError\<close>.
\<close>

datatype body_field = Missing | Text string | NonText

fun field_falsy :: "body_field \<Rightarrow> bool" where
  "field_falsy Missing = True"
| "field_falsy (Text s) = (s = [])"
| "field_falsy NonText = False"

datatype middleware_result = Next zk_proof | Respond nat string

text \<open>
  \<^verbatim>\<open>verifyDataAccess\<close>.  \<open>dataExists\<close> is the answer of the storage service for the
  given content address; \<open>t1\<close> and \<open>t2\<close> are the clock readings when the proof is
  generated and when it is verified.
\<close>

definition verifyDataAccess :: "(string \<Rightarrow> string) \<Rightarrow> (nat \<Rightarrow> nat) \<Rightarrow> int \<Rightarrow> int \<Rightarrow> bool \<Rightarrow> body_field \<Rightarrow> body_field \<Rightarrow> body_field \<Rightarrow> middleware_result" where
  "verifyDataAccess H rnd t1 t2 dataExists dataCID userAddress dataType' =
     (if field_falsy dataCID \<or> field_falsy userAddress \<or> field_falsy dataType'
      then Respond 400 ''Data CID, user address, and data type required''
      else if \<not> dataExists then Respond 404 ''Data not found on IPFS''
      else
        (case (userAddress, dataType') of
           (Text u, Text d) \<Rightarrow>
             (let accessProof = generateDataAccessProof H rnd t1 u d ''read'';
                  accessVerification = verifyDataAccessProof H t2 accessProof u d ''read''
              in if \<not> accessGranted accessVerification
                 then Respond 403 ''Access denied to this data''
                 else Next accessProof)
         | _ \<Rightarrow> Respond 500 ''Data access verification failed''))"

section \<open>Credential service (class SSIService in src/unnamed/part_004)\<close>

text \<open>
  The decoded payload of a token.  \<^verbatim>\<open>jwt.verify\<close> and the DID registry contract are
  parameters: \<open>jwt_verify\<close> returns the payload or the message of the error it throws,
  \<open>registry\<close> returns owner, timestamp and document hash, or nothing when the call fails.
  The service's surroundings are collected in a record, together with the user
  collection that holds the revocation flags.
\<close>

record jwt_payload =
  jwt_iss :: string
  jwt_sub :: string
  jwt_exp :: "int option"
  jwt_nbf :: int
  jwt_nonce :: "string option"
  jwt_vp :: "string list option"

record world =
  jwt_verify :: "string \<Rightarrow> string + jwt_payload"
  registry :: "string \<Rightarrow> (string \<times> int \<times> string) option"
  users :: user_collection

definition AddressZero :: string where
  "AddressZero = ''0x0000000000000000000000000000000000000000''"

record did_data =
  did :: string
  did_owner :: string
  did_timestamp :: int
  documentHash :: string
  did_isActive :: bool

definition resolveDID :: "world \<Rightarrow> string \<Rightarrow> did_data option" where
  "resolveDID w d =
     (case registry w d of
        None \<Rightarrow> None
      | Some (owner, ts, doc) \<Rightarrow>
          if owner = AddressZero then None
          else Some \<lparr>did = d, did_owner = owner, did_timestamp = ts, documentHash = doc,
                     did_isActive = True\<rparr>)"

definition did_ok :: "did_data option \<Rightarrow> bool" where
  "did_ok r = (case r of None \<Rightarrow> False | Some dd \<Rightarrow> did_isActive dd)"

text \<open>\<^verbatim>\<open>decoded.exp && decoded.exp < Math.floor(Date.now() / 1000)\<close>\<close>

definition token_expired :: "int \<Rightarrow> jwt_payload \<Rightarrow> bool" where
  "token_expired now d =
     (case jwt_exp d of None \<Rightarrow> False | Some e \<Rightarrow> e \<noteq> 0 \<and> e < now div 1000)"

record verification =
  vc_isValid :: bool
  vc_error :: "string option"

definition verifyCredential :: "world \<Rightarrow> int \<Rightarrow> string \<Rightarrow> verification" where
  "verifyCredential w now credentialJWT =
     (case jwt_verify w credentialJWT of
        Inl msg \<Rightarrow> \<lparr>vc_isValid = False, vc_error = Some msg\<rparr>
      | Inr decoded \<Rightarrow>
          if token_expired now decoded
          then \<lparr>vc_isValid = False, vc_error = Some ''Credential expired''\<rparr>
          else if \<not> did_ok (resolveDID w (jwt_iss decoded))
          then \<lparr>vc_isValid = False, vc_error = Some ''Invalid issuer DID''\<rparr>
          else if \<not> did_ok (resolveDID w (jwt_sub decoded))
          then \<lparr>vc_isValid = False, vc_error = Some ''Invalid subject DID''\<rparr>
          else \<lparr>vc_isValid = True, vc_error = None\<rparr>)"

record presentation_check =
  vp_isValid :: bool
  vp_error :: "string option"
  vp_credentials :: "verification list"

definition verifyPresentation :: "world \<Rightarrow> int \<Rightarrow> string \<Rightarrow> string \<Rightarrow> presentation_check" where
  "verifyPresentation w now presentationJWT challenge =
     (case jwt_verify w presentationJWT of
        Inl msg \<Rightarrow> \<lparr>vp_isValid = False, vp_error = Some msg, vp_credentials = []\<rparr>
      | Inr decoded \<Rightarrow>
          if token_expired now decoded
          then \<lparr>vp_isValid = False, vp_error = Some ''Presentation expired'', vp_credentials = []\<rparr>
          else if jwt_nonce decoded \<noteq> Some challenge
          then \<lparr>vp_isValid = False, vp_error = Some ''Invalid challenge'', vp_credentials = []\<rparr>
          else if \<not> did_ok (resolveDID w (jwt_iss decoded))
          then \<lparr>vp_isValid = False, vp_error = Some ''Invalid holder DID'', vp_credentials = []\<rparr>
          else
            (case jwt_vp decoded of
               None \<Rightarrow> \<lparr>vp_isValid = False, vp_error = Some ''TypeError'', vp_credentials = []\<rparr>
             | Some creds \<Rightarrow>
                 (let credentialVerifications = map (verifyCredential w now) creds
                  in \<lparr>vp_isValid = list_all vc_isValid credentialVerifications,
                      vp_error = None,
                      vp_credentials = credentialVerifications\<rparr>)))"

text \<open>
  The two revocation operations of the repository: the user document's method above,
  which the route \<^verbatim>\<open>DELETE /credentials/:credentialHash\<close> applies to the stored user,
  and the service's \<^verbatim>\<open>revokeCredential\<close>, which builds a revocation record and
  stores nothing (\<open>render\<close> prints the clock reading in decimal).
\<close>

definition revoke_credential_route :: "world \<Rightarrow> string \<Rightarrow> string \<Rightarrow> http_error + world" where
  "revoke_credential_route w address credentialHash' =
     (if address = [] then Inl (HttpError 400 ''Address is required'')
      else case findByAddress (users w) address of
        None \<Rightarrow> Inl (HttpError 404 ''User not found'')
      | Some u \<Rightarrow>
          (case revokeCredential u credentialHash' of
             Inl msg \<Rightarrow> Inl (HttpError 500 ''Failed to revoke credential'')
           | Inr u' \<Rightarrow> Inr (w\<lparr>users := (users w)(user_address u' \<mapsto> u')\<rparr>)))"

record revocation =
  rev_credentialId :: string
  rev_issuer :: string
  rev_reason :: string
  rev_timestamp :: int
  revocationHash :: string

definition ssi_revokeCredential :: "(string \<Rightarrow> string) \<Rightarrow> (int \<Rightarrow> string) \<Rightarrow> int \<Rightarrow> string \<Rightarrow> string \<Rightarrow> string option \<Rightarrow> revocation" where
  "ssi_revokeCredential H render now credentialId issuerDID reason =
     \<lparr>rev_credentialId = credentialId,
      rev_issuer = issuerDID,
      rev_reason = (if falsy reason then ''User requested revocation'' else text_of reason),
      rev_timestamp = now,
      revocationHash = H (credentialId @ ''-'' @ issuerDID @ ''-'' @ render now)\<rparr>"

section \<open>Anomaly monitor (src/src/services/aiCoPilot.js; the analytics schema in src/src/middleware/auth.js)\<close>

record anomaly =
  anomaly_type :: string
  severity :: string
  message :: string

record access_pattern =
  frequency :: nat
  timeOfDay :: "nat list"
  dayOfWeek :: "nat list"
  dataVolume :: real
  accessDuration :: real

datatype risk_level = Low | Medium | High | Critical

record ai_analytics =
  accessPattern :: access_pattern
  anomalyScore :: int
  riskLevel :: risk_level
  alerts :: "anomaly list"

text \<open>The \<^verbatim>\<open>switch\<close> on the severity: a severity outside the four cases adds nothing.\<close>

definition severity_weight :: "string \<Rightarrow> int" where
  "severity_weight s =
     (if s = ''critical'' then 30
      else if s = ''error'' then 20
      else if s = ''warning'' then 10
      else if s = ''info'' then 5
      else 0)"

definition calculateAnomalyScore :: "anomaly list \<Rightarrow> ai_analytics \<Rightarrow> int" where
  "calculateAnomalyScore anomalies userAnalytics =
     (let score = foldl (\<lambda>score a. score + severity_weight (severity a)) 0 anomalies;
          score = (if frequency (accessPattern userAnalytics) > 10 then score + 15 else score);
          score = (if dataVolume (accessPattern userAnalytics) > 2000 then score + 20 else score)
      in min score 100)"

definition updateAnomalyScore :: "int \<Rightarrow> ai_analytics \<Rightarrow> ai_analytics" where
  "updateAnomalyScore score a =
     a\<lparr>anomalyScore := score,
       riskLevel := (if score \<ge> 90 then Critical
                     else if score \<ge> 75 then High
                     else if score \<ge> 50 then Medium
                     else Low)\<rparr>"

text \<open>
  The score as the specification words it: the sum of the weights plus the two bonuses,
  before the cap.
\<close>

definition raw_score :: "anomaly list \<Rightarrow> ai_analytics \<Rightarrow> int" where
  "raw_score xs ua =
     sum_list (map (\<lambda>a. severity_weight (severity a)) xs)
     + (if frequency (accessPattern ua) > 10 then 15 else 0)
     + (if dataVolume (accessPattern ua) > 2000 then 20 else 0)"

text \<open>The order of the claim on alert lists: alerts may be added and severities raised.\<close>

definition no_lighter :: "anomaly \<Rightarrow> anomaly \<Rightarrow> bool" where
  "no_lighter a b = (severity_weight (severity a) \<le> severity_weight (severity b))"


section \<open>Example data\<close>

definition example_settlement :: blockchain_data where
  "example_settlement =
     \<lparr>transactionHash = ''0xabc'', blockNumber = 18000001, gasUsed = 21000, bc_timestamp = 100\<rparr>"

definition example_request :: consent_request where
  "example_request =
     \<lparr>requester_address = ''0xrequester'', requester_ensName = None,
      requester_displayName = None, dataOwner_address = ''0xowner'',
      dataOwner_ensName = None, dataType = ''medical'', purpose = ''study'',
      accessLevel = ''read'', status = Pending, blockchainData = None,
      expiresAt = Some 50, respondedAt = None, responseReason = None, isActive = True\<rparr>"

definition example_owner :: user where
  "example_owner =
     \<lparr>user_address = ''0xowner'', user_ensName = None, user_displayName = None,
      ssiCredentials = []\<rparr>"

definition example_requester :: user where
  "example_requester =
     \<lparr>user_address = ''0xrequester'', user_ensName = None, user_displayName = None,
      ssiCredentials = []\<rparr>"

definition example_users :: user_collection where
  "example_users = [''0xowner'' \<mapsto> example_owner, ''0xrequester'' \<mapsto> example_requester]"

definition example_body :: request_body where
  "example_body =
     \<lparr>body_dataOwnerAddress = Some ''0xOwner'', body_dataType = Some ''medical'',
      body_purpose = Some ''study'', body_accessLevel = None, body_expiresAt = DateAt 50\<rparr>"

text \<open>A stand-in for the hash and one for the entropy source, to run the model on.\<close>

definition example_hash :: "string \<Rightarrow> string" where
  "example_hash s = ''#'' @ s"

definition example_entropy :: "nat \<Rightarrow> nat" where
  "example_entropy i = 17 * i + 3"

definition example_analytics :: ai_analytics where
  "example_analytics =
     \<lparr>accessPattern = \<lparr>frequency = 12, timeOfDay = [3], dayOfWeek = [1], dataVolume = 900,
                        accessDuration = 120\<rparr>,
      anomalyScore = 0, riskLevel = Low, alerts = []\<rparr>"

definition example_alert :: "string \<Rightarrow> anomaly" where
  "example_alert s = \<lparr>anomaly_type = ''unusual_access'', severity = s, message = ''alert''\<rparr>"

text \<open>
  A holder with one stored credential, the tokens of that credential and of a
  presentation wrapping it, and a registry that resolves issuer and holder.
\<close>

definition example_credential :: ssi_credential where
  "example_credential =
     \<lparr>cred_type = ''identity'', cred_issuer = ''did:ethr:0xissuer'',
      credentialHash = ''#vc.jwt'', isRevoked = False\<rparr>"

definition example_holder :: user where
  "example_holder =
     \<lparr>user_address = ''0xholder'', user_ensName = None, user_displayName = None,
      ssiCredentials = [example_credential]\<rparr>"

definition example_jwt_verify :: "string \<Rightarrow> string + jwt_payload" where
  "example_jwt_verify token =
     (if token = ''vc.jwt''
      then Inr \<lparr>jwt_iss = ''did:ethr:0xissuer'', jwt_sub = ''did:ethr:0xholder'',
                jwt_exp = Some 5000, jwt_nbf = 900, jwt_nonce = None, jwt_vp = None\<rparr>
      else if token = ''vp.jwt''
      then Inr \<lparr>jwt_iss = ''did:ethr:0xholder'', jwt_sub = [],
                jwt_exp = Some 2000, jwt_nbf = 950, jwt_nonce = Some ''challenge-1'',
                jwt_vp = Some [''vc.jwt'']\<rparr>
      else Inl ''jwt malformed'')"

definition example_registry :: "string \<Rightarrow> (string \<times> int \<times> string) option" where
  "example_registry d =
     (if d = ''did:ethr:0xissuer'' then Some (''0xissuer'', 100, ''doc1'')
      else if d = ''did:ethr:0xholder'' then Some (''0xholder'', 200, ''doc2'')
      else Some (AddressZero, 0, []))"

definition example_world :: world where
  "example_world =
     \<lparr>jwt_verify = example_jwt_verify, registry = example_registry,
      users = [''0xholder'' \<mapsto> example_holder]\<rparr>"

definition example_world_revoked :: world where
  "example_world_revoked =
     \<lparr>jwt_verify = example_jwt_verify, registry = example_registry,
      users = [''0xholder'' \<mapsto>
                 example_holder\<lparr>ssiCredentials := [example_credential\<lparr>isRevoked := True\<rparr>]\<rparr>]\<rparr>"

section \<open>Consent requests: the transition graph\<close>

lemma pre_save_not_pending: "status r \<noteq> Pending \<Longrightarrow> pre_save now r = r"
  by (simp add: pre_save_def)

lemma approve_route_owner:
  assumes "db i = Some r" and "dataOwner_address r = u"
  shows "approve_route now bd cu db i u reason =
     (if status r \<noteq> Pending then (Inl not_pending, db)
      else (let r' = r\<lparr>status := Approved, respondedAt := Some now,
                      responseReason := Some (reason_or_empty reason), blockchainData := Some bd\<rparr>
            in (if emitToUser cu (requester_address r) = None then Inr r'
                else Inl (HttpError 500 ''Failed to approve consent request''),
                db(i \<mapsto> r'))))"
  using assms
  by (cases "emitToUser cu (requester_address r)")
     (simp_all add: approve_route_def approve_def setBlockchainData_def save_def Let_def
        pre_save_not_pending)

lemma deny_route_owner:
  assumes "db i = Some r" and "dataOwner_address r = u"
  shows "deny_route now cu db i u reason =
     (if status r \<noteq> Pending then (Inl not_pending, db)
      else (let r' = r\<lparr>status := Denied, respondedAt := Some now,
                      responseReason := Some (reason_or_empty reason)\<rparr>
            in (if emitToUser cu (requester_address r) = None then Inr r'
                else Inl (HttpError 500 ''Failed to deny consent request''),
                db(i \<mapsto> r'))))"
  using assms
  by (cases "emitToUser cu (requester_address r)")
     (simp_all add: deny_route_def deny_def save_def Let_def pre_save_not_pending)

lemma revoke_route_owner:
  assumes "db i = Some r" and "dataOwner_address r = u"
  shows "revoke_route now cu db i u reason =
     (if status r \<noteq> Approved then (Inl not_approved, db)
      else (let r' = r\<lparr>status := Revoked, respondedAt := Some now,
                      responseReason := Some (reason_or_empty reason)\<rparr>
            in (if emitToUser cu (requester_address r) = None then Inr r'
                else Inl (HttpError 500 ''Failed to revoke consent request''),
                db(i \<mapsto> r'))))"
  using assms
  by (cases "emitToUser cu (requester_address r)")
     (simp_all add: revoke_route_def revoke_def save_def Let_def pre_save_not_pending)

lemma run_action_transition:
  assumes "db i = Some r" and "dataOwner_address r = actor" and "status r = required_status a"
  shows "\<exists>r'. snd (run_action a now bd cu db i actor reason) = db(i \<mapsto> r')
            \<and> status r' = target_status a \<and> allowed (status r) (status r')
            \<and> (emitToUser cu (requester_address r) = None \<longrightarrow>
                  fst (run_action a now bd cu db i actor reason) = Inr r')"
proof (cases a)
  case Approve
  with assms show ?thesis
    by (intro exI[of _ "r\<lparr>status := Approved, respondedAt := Some now,
            responseReason := Some (reason_or_empty reason), blockchainData := Some bd\<rparr>"])
       (simp add: approve_route_owner Let_def)
next
  case Deny
  with assms show ?thesis
    by (intro exI[of _ "r\<lparr>status := Denied, respondedAt := Some now,
            responseReason := Some (reason_or_empty reason)\<rparr>"])
       (simp add: deny_route_owner Let_def)
next
  case Revoke
  with assms show ?thesis
    by (intro exI[of _ "r\<lparr>status := Revoked, respondedAt := Some now,
            responseReason := Some (reason_or_empty reason)\<rparr>"])
       (simp add: revoke_route_owner Let_def)
qed

lemma run_action_answer:
  assumes "db i = Some r" and "dataOwner_address r = actor" and "status r = required_status a"
    and "fst (run_action a now bd cu db i actor reason) = Inr r'"
  shows "status r' = target_status a"
  using assms
  by (cases a)
     (auto simp: approve_route_owner deny_route_owner revoke_route_owner Let_def
        split: if_splits)

lemma run_action_invalid:
  assumes "db i = Some r" and "dataOwner_address r = actor" and "status r \<noteq> required_status a"
  shows "run_action a now bd cu db i actor reason = (Inl (invalid_transition a), db)"
  using assms
  by (cases a) (simp_all add: approve_route_owner deny_route_owner revoke_route_owner)

lemma run_action_not_owner:
  assumes "db i = None \<or> (\<exists>r. db i = Some r \<and> dataOwner_address r \<noteq> actor)"
  shows "\<exists>e. run_action a now bd cu db i actor reason = (Inl e, db)"
  using assms
  by (cases a) (auto simp: approve_route_def deny_route_def revoke_route_def)

lemma run_action_stored:
  "snd (run_action a now bd cu db i actor reason) = db
   \<or> (\<exists>r r'. db i = Some r \<and> dataOwner_address r = actor \<and> status r = required_status a
          \<and> snd (run_action a now bd cu db i actor reason) = db(i \<mapsto> r')
          \<and> status r' = target_status a \<and> allowed (status r) (status r'))"
proof (cases "db i")
  case None
  then show ?thesis using run_action_not_owner[of db i actor a now bd cu reason] by auto
next
  case (Some r)
  show ?thesis
  proof (cases "dataOwner_address r = actor")
    case False
    then show ?thesis using Some run_action_not_owner[of db i actor a now bd cu reason] by auto
  next
    case owner: True
    show ?thesis
    proof (cases "status r = required_status a")
      case True
      from Some owner True run_action_transition[of db i r actor a now bd cu reason]
      obtain r' where "snd (run_action a now bd cu db i actor reason) = db(i \<mapsto> r')"
        and "status r' = target_status a" and "allowed (status r) (status r')"
        by blast
      with Some owner True show ?thesis by blast
    next
      case False
      with Some owner show ?thesis by (simp add: run_action_invalid)
    qed
  qed
qed

lemma run_action_success_only:
  assumes "fst (run_action a now bd cu db i actor reason) = Inr r'"
  shows "\<exists>r. db i = Some r \<and> dataOwner_address r = actor \<and> status r = required_status a
            \<and> status r' = target_status a"
proof (cases "db i")
  case None
  then show ?thesis using assms run_action_not_owner[of db i actor a now bd cu reason] by auto
next
  case (Some r)
  show ?thesis
  proof (cases "dataOwner_address r = actor")
    case False
    then show ?thesis
      using assms Some run_action_not_owner[of db i actor a now bd cu reason] by auto
  next
    case owner: True
    show ?thesis
    proof (cases "status r = required_status a")
      case True
      with Some owner assms show ?thesis
        using run_action_answer[of db i r actor a now bd cu reason r'] by simp
    next
      case False
      with Some owner assms show ?thesis by (simp add: run_action_invalid)
    qed
  qed
qed

text \<open>
  Claim C1.  For every consent request and every approve, deny or revoke, the stored
  status changes only along the graph.  Issued by the data owner from the status the
  operation requires (pending for approve and deny, approved for revoke), the operation
  stores the status approved, denied or revoked, and answers with the request when the
  notification of the requester goes through.  Issued by the data owner from any other
  status, it answers with the invalid-transition error (HTTP 400) and leaves the
  collection, hence the status, unchanged.  Whatever the caller and the id, a call
  either leaves the collection unchanged or stores exactly such a transition, and it
  answers with a request only when it started from the required status.
\<close>

theorem consent_transitions_follow_graph:
  "(\<forall>r. db i = Some r \<and> dataOwner_address r = actor \<and> status r = required_status a \<longrightarrow>
        (\<exists>r'. snd (run_action a now bd cu db i actor reason) = db(i \<mapsto> r')
             \<and> status r' = target_status a \<and> allowed (status r) (status r')
             \<and> (emitToUser cu (requester_address r) = None \<longrightarrow>
                   fst (run_action a now bd cu db i actor reason) = Inr r')))
   \<and> (\<forall>r. db i = Some r \<and> dataOwner_address r = actor \<and> status r \<noteq> required_status a \<longrightarrow>
        run_action a now bd cu db i actor reason = (Inl (invalid_transition a), db))
   \<and> (snd (run_action a now bd cu db i actor reason) = db
       \<or> (\<exists>r r'. db i = Some r \<and> dataOwner_address r = actor \<and> status r = required_status a
              \<and> snd (run_action a now bd cu db i actor reason) = db(i \<mapsto> r')
              \<and> status r' = target_status a \<and> allowed (status r) (status r')))
   \<and> (\<forall>r'. fst (run_action a now bd cu db i actor reason) = Inr r' \<longrightarrow>
        (\<exists>r. db i = Some r \<and> dataOwner_address r = actor \<and> status r = required_status a
            \<and> status r' = target_status a))"
proof (intro conjI allI impI)
  fix r assume "db i = Some r \<and> dataOwner_address r = actor \<and> status r = required_status a"
  then show "\<exists>r'. snd (run_action a now bd cu db i actor reason) = db(i \<mapsto> r')
             \<and> status r' = target_status a \<and> allowed (status r) (status r')
             \<and> (emitToUser cu (requester_address r) = None \<longrightarrow>
                   fst (run_action a now bd cu db i actor reason) = Inr r')"
    using run_action_transition[of db i r actor a now bd cu reason] by simp
next
  fix r assume "db i = Some r \<and> dataOwner_address r = actor \<and> status r \<noteq> required_status a"
  then show "run_action a now bd cu db i actor reason = (Inl (invalid_transition a), db)"
    using run_action_invalid[of db i r actor a now bd cu reason] by simp
next
  show "snd (run_action a now bd cu db i actor reason) = db
       \<or> (\<exists>r r'. db i = Some r \<and> dataOwner_address r = actor \<and> status r = required_status a
              \<and> snd (run_action a now bd cu db i actor reason) = db(i \<mapsto> r')
              \<and> status r' = target_status a \<and> allowed (status r) (status r'))"
    by (rule run_action_stored)
next
  fix r' assume "fst (run_action a now bd cu db i actor reason) = Inr r'"
  then show "\<exists>r. db i = Some r \<and> dataOwner_address r = actor \<and> status r = required_status a
            \<and> status r' = target_status a"
    by (rule run_action_success_only)
qed

theorem consent_transitions_follow_graph_witness:
  "map_sum id status (fst (run_action Approve 100 example_settlement Map.empty
       (Map.empty(1 \<mapsto> example_request)) 1 ''0xowner'' None)) = Inr Approved
   \<and> map_option status (snd (run_action Approve 100 example_settlement
       [''0xrequester'' \<mapsto> ''socket-1''] (Map.empty(1 \<mapsto> example_request)) 1
       ''0xowner'' None) 1) = Some Approved
   \<and> run_action Approve 100 example_settlement Map.empty
       (Map.empty(1 \<mapsto> example_request\<lparr>status := Denied\<rparr>)) 1 ''0xowner'' None
     = (Inl not_pending, Map.empty(1 \<mapsto> example_request\<lparr>status := Denied\<rparr>))
   \<and> run_action Revoke 100 example_settlement Map.empty
       (Map.empty(1 \<mapsto> example_request)) 1 ''0xowner'' None
     = (Inl not_approved, Map.empty(1 \<mapsto> example_request))"
  using consent_transitions_follow_graph
          [where db = "Map.empty(1 \<mapsto> example_request)" and i = 1 and actor = "''0xowner''"
             and a = Approve and now = 100 and bd = example_settlement and reason = None
             and cu = Map.empty]
        consent_transitions_follow_graph
          [where db = "Map.empty(1 \<mapsto> example_request)" and i = 1 and actor = "''0xowner''"
             and a = Approve and now = 100 and bd = example_settlement and reason = None
             and cu = "[''0xrequester'' \<mapsto> ''socket-1'']"]
        consent_transitions_follow_graph
          [where db = "Map.empty(1 \<mapsto> example_request\<lparr>status := Denied\<rparr>)" and i = 1
             and actor = "''0xowner''" and a = Approve and now = 100
             and bd = example_settlement and reason = None and cu = Map.empty]
        consent_transitions_follow_graph
          [where db = "Map.empty(1 \<mapsto> example_request)" and i = 1 and actor = "''0xowner''"
             and a = Revoke and now = 100 and bd = example_settlement and reason = None
             and cu = Map.empty]
  by (auto simp: example_request_def not_pending_def not_approved_def emitToUser_def)

text \<open>
  With the requester connected the notification throws after the save: the route
  answers 500 and the new status is stored.
\<close>

lemma approve_route_notification_fails:
  "approve_route 100 example_settlement [''0xrequester'' \<mapsto> ''socket-1'']
       (Map.empty(1 \<mapsto> example_request)) 1 ''0xowner'' None
     = (Inl (HttpError 500 ''Failed to approve consent request''),
        Map.empty(1 \<mapsto> example_request\<lparr>status := Approved, respondedAt := Some 100,
           responseReason := Some [], blockchainData := Some example_settlement\<rparr>))"
  by (simp add: approve_route_owner example_request_def emitToUser_def toLowerCase_def
        reason_or_empty_def Let_def)


section \<open>Consent requests: expiry\<close>

lemma pre_save_expired:
  assumes "expiresAt r = Some e" and "e < now" and "status r = Pending"
  shows "pre_save now r = r\<lparr>status := Expired\<rparr>"
  using assms by (simp add: pre_save_def isExpired_def)

lemma cleanupExpired_expired:
  assumes "db i = Some r" and "expiresAt r = Some e" and "e < now" and "status r = Pending"
  shows "cleanupExpired now db i = Some (r\<lparr>status := Expired\<rparr>)"
  using assms by (simp add: cleanupExpired_def findExpiredRequests_def pre_save_def)

lemma get_route_party:
  assumes "db i = Some r" and "u = dataOwner_address r \<or> u = requester_address r"
  shows "get_route db i u = (Inr r, db)"
  using assms by (auto simp: get_route_def)

text \<open>
  The approve route on a pending request of its owner does not read \<^verbatim>\<open>expiresAt\<close>:
  the method overwrites the status before \<^verbatim>\<open>save\<close> runs the hook.
\<close>

lemma approve_route_ignores_expiry:
  assumes "db i = Some r" and "dataOwner_address r = u" and "status r = Pending"
    and "emitToUser cu (requester_address r) = None"
  shows "map_sum id status (fst (approve_route now bd cu db i u reason)) = Inr Approved"
  using assms by (simp add: approve_route_owner Let_def)

text \<open>
  Claim C3, as the specification states it, fails: a request whose expiry (50) is in
  the past at time 100 and whose stored status is pending is returned as pending by the
  read route, and its owner approves it successfully (nobody being connected).
\<close>

theorem lazy_expiry_counterexample:
  "isExpired 100 example_request
   \<and> status example_request = Pending
   \<and> map_sum id status
       (fst (get_route (Map.empty(1 \<mapsto> example_request)) 1 ''0xrequester'')) = Inr Pending
   \<and> map_sum id status
       (fst (approve_route 100 example_settlement Map.empty
               (Map.empty(1 \<mapsto> example_request)) 1 ''0xowner'' None)) = Inr Approved"
  by (simp add: isExpired_def get_route_def approve_route_owner Let_def example_request_def
        emitToUser_def)

text \<open>
  Claim C3, amended.  For every consent request whose \<^verbatim>\<open>expiresAt\<close> lies in the past
  and whose stored status is still pending, the status is forced to expired when the
  request is saved while still pending (the pre-save hook) and when the periodic cleanup
  runs; reading the request by id saves nothing and returns the stored document, status
  pending included, to its owner or requester.
\<close>

theorem expiry_on_save_and_sweep_not_on_read:
  "expiresAt r = Some e \<and> e < now \<and> status r = Pending \<longrightarrow>
     save now db i r = (r\<lparr>status := Expired\<rparr>, db(i \<mapsto> r\<lparr>status := Expired\<rparr>))
     \<and> (db i = Some r \<longrightarrow>
          cleanupExpired now db i = Some (r\<lparr>status := Expired\<rparr>)
          \<and> (u = dataOwner_address r \<or> u = requester_address r \<longrightarrow>
               get_route db i u = (Inr r, db)))"
proof (intro impI conjI)
  assume a: "expiresAt r = Some e \<and> e < now \<and> status r = Pending"
  then show "save now db i r = (r\<lparr>status := Expired\<rparr>, db(i \<mapsto> r\<lparr>status := Expired\<rparr>))"
    by (simp add: save_def Let_def pre_save_expired[of r e now])
  assume d: "db i = Some r"
  with a show "cleanupExpired now db i = Some (r\<lparr>status := Expired\<rparr>)"
    by (simp add: cleanupExpired_expired[of db i r e now])
  assume "u = dataOwner_address r \<or> u = requester_address r"
  with d show "get_route db i u = (Inr r, db)"
    by (rule get_route_party)
qed

theorem expiry_on_save_and_sweep_not_on_read_witness:
  "save 100 (Map.empty(1 \<mapsto> example_request)) 1 example_request
     = (example_request\<lparr>status := Expired\<rparr>, Map.empty(1 \<mapsto> example_request\<lparr>status := Expired\<rparr>))
   \<and> cleanupExpired 100 (Map.empty(1 \<mapsto> example_request)) 1
     = Some (example_request\<lparr>status := Expired\<rparr>)
   \<and> get_route (Map.empty(1 \<mapsto> example_request)) 1 ''0xowner''
     = (Inr example_request, Map.empty(1 \<mapsto> example_request))"
  using expiry_on_save_and_sweep_not_on_read
          [where r = example_request and e = 50 and now = 100
             and db = "Map.empty(1 \<mapsto> example_request)" and i = 1 and u = "''0xowner''"]
  by (simp add: example_request_def)


section \<open>Consent requests: creation\<close>

lemma create_route_missing:
  assumes "falsy (body_dataOwnerAddress body) \<or> falsy (body_dataType body)
           \<or> falsy (body_purpose body) \<or> body_expiresAt body = NoDate"
  shows "create_route now cu us db newId requesterAddress body
           = (Inl (HttpError 400 ''Missing required fields''), db)"
  using assms by (simp add: create_route_def)

lemma status_new_ConsentRequest: "status (new_ConsentRequest ra rq oa ow body) = Pending"
  by (simp add: new_ConsentRequest_def)

lemma expiresAt_new_ConsentRequest:
  "body_expiresAt body = DateAt t \<Longrightarrow> expiresAt (new_ConsentRequest ra rq oa ow body) = Some t"
  by (simp add: new_ConsentRequest_def)

lemma create_route_created:
  assumes present: "\<not> falsy (body_dataOwnerAddress body)" "\<not> falsy (body_dataType body)"
      "\<not> falsy (body_purpose body)"
    and date: "body_expiresAt body = DateAt t"
    and owner: "findByAddress us (text_of (body_dataOwnerAddress body)) = Some dataOwner"
    and requester: "findByAddress us requesterAddress = Some requester"
    and valid: "validate (new_ConsentRequest requesterAddress requester
                   (text_of (body_dataOwnerAddress body)) dataOwner body)"
  shows "\<exists>r. snd (create_route now cu us db newId requesterAddress body) = db(newId \<mapsto> r)
            \<and> status r = (if now > t then Expired else Pending)
            \<and> (emitToUser cu (text_of (body_dataOwnerAddress body)) = None \<longrightarrow>
                  fst (create_route now cu us db newId requesterAddress body) = Inr r)"
proof -
  let ?r = "new_ConsentRequest requesterAddress requester
              (text_of (body_dataOwnerAddress body)) dataOwner body"
  have stored: "snd (create_route now cu us db newId requesterAddress body)
                  = db(newId \<mapsto> pre_save now ?r)"
    using present date owner requester valid
    by (cases "emitToUser cu (text_of (body_dataOwnerAddress body))")
       (simp_all add: create_route_def save_def Let_def)
  have answer: "emitToUser cu (text_of (body_dataOwnerAddress body)) = None \<Longrightarrow>
                  fst (create_route now cu us db newId requesterAddress body)
                    = Inr (pre_save now ?r)"
    using present date owner requester valid
    by (simp add: create_route_def save_def Let_def)
  have st: "status (pre_save now ?r) = (if now > t then Expired else Pending)"
    using date
    by (simp add: pre_save_def isExpired_def status_new_ConsentRequest
          expiresAt_new_ConsentRequest)
  show ?thesis
  proof (intro exI[of _ "pre_save now ?r"] conjI impI)
    show "snd (create_route now cu us db newId requesterAddress body)
            = db(newId \<mapsto> pre_save now ?r)"
      by (rule stored)
    show "status (pre_save now ?r) = (if now > t then Expired else Pending)"
      by (rule st)
    assume "emitToUser cu (text_of (body_dataOwnerAddress body)) = None"
    then show "fst (create_route now cu us db newId requesterAddress body)
                 = Inr (pre_save now ?r)"
      by (rule answer)
  qed
qed

lemma create_route_answer:
  assumes "fst (create_route now cu us db newId requesterAddress body) = Inr r"
  shows "status r = Pending \<or> status r = Expired"
  using assms
  by (auto simp: create_route_def save_def Let_def pre_save_def status_new_ConsentRequest
        split: if_splits option.splits)

text \<open>
  Claim C5, as the specification states it, fails: at time 100 a request whose
  \<^verbatim>\<open>expiresAt\<close> is 50 is not refused; it is created, with status expired.
\<close>

theorem create_past_expiry_counterexample:
  "map_sum id status
     (fst (create_route 100 Map.empty example_users Map.empty 1 ''0xrequester'' example_body))
   = Inr Expired"
  by (simp add: create_route_def example_body_def example_users_def falsy_def text_of_def
        findByAddress_def toLowerCase_def new_ConsentRequest_def validate_def trim_def
        is_space_def dataType_enum_def accessLevel_enum_def save_def pre_save_def
        isExpired_def emitToUser_def Let_def)

text \<open>
  Claim C5, amended.  Creating a consent request fails with HTTP 400 (missing required
  fields) when the owner address, the data category, the purpose or \<^verbatim>\<open>expiresAt\<close>
  is absent; an \<^verbatim>\<open>expiresAt\<close> that is not in the future is not refused.  When the
  four fields are present, owner and requester are registered users and the new
  document passes schema validation, a request is created and stored, with status
  pending if \<^verbatim>\<open>expiresAt\<close> is not before the current time and status expired
  otherwise; it is the answer when the notification of the owner goes through.  A
  request that is answered has status pending or expired.
\<close>

theorem create_pending_or_expired:
  "(falsy (body_dataOwnerAddress body) \<or> falsy (body_dataType body)
      \<or> falsy (body_purpose body) \<or> body_expiresAt body = NoDate \<longrightarrow>
      create_route now cu us db newId requesterAddress body
        = (Inl (HttpError 400 ''Missing required fields''), db))
   \<and> (\<not> falsy (body_dataOwnerAddress body) \<and> \<not> falsy (body_dataType body)
      \<and> \<not> falsy (body_purpose body) \<and> body_expiresAt body = DateAt t
      \<and> findByAddress us (text_of (body_dataOwnerAddress body)) = Some dataOwner
      \<and> findByAddress us requesterAddress = Some requester
      \<and> validate (new_ConsentRequest requesterAddress requester
                    (text_of (body_dataOwnerAddress body)) dataOwner body) \<longrightarrow>
      (\<exists>r. snd (create_route now cu us db newId requesterAddress body) = db(newId \<mapsto> r)
          \<and> status r = (if now > t then Expired else Pending)
          \<and> (emitToUser cu (text_of (body_dataOwnerAddress body)) = None \<longrightarrow>
                fst (create_route now cu us db newId requesterAddress body) = Inr r)))
   \<and> (\<forall>r. fst (create_route now cu us db newId requesterAddress body) = Inr r \<longrightarrow>
          status r = Pending \<or> status r = Expired)"
proof (intro conjI impI allI)
  assume "falsy (body_dataOwnerAddress body) \<or> falsy (body_dataType body)
      \<or> falsy (body_purpose body) \<or> body_expiresAt body = NoDate"
  then show "create_route now cu us db newId requesterAddress body
        = (Inl (HttpError 400 ''Missing required fields''), db)"
    by (rule create_route_missing)
next
  assume "\<not> falsy (body_dataOwnerAddress body) \<and> \<not> falsy (body_dataType body)
      \<and> \<not> falsy (body_purpose body) \<and> body_expiresAt body = DateAt t
      \<and> findByAddress us (text_of (body_dataOwnerAddress body)) = Some dataOwner
      \<and> findByAddress us requesterAddress = Some requester
      \<and> validate (new_ConsentRequest requesterAddress requester
                    (text_of (body_dataOwnerAddress body)) dataOwner body)"
  then show "\<exists>r. snd (create_route now cu us db newId requesterAddress body) = db(newId \<mapsto> r)
          \<and> status r = (if now > t then Expired else Pending)
          \<and> (emitToUser cu (text_of (body_dataOwnerAddress body)) = None \<longrightarrow>
                fst (create_route now cu us db newId requesterAddress body) = Inr r)"
    using create_route_created
            [of body t us dataOwner requesterAddress requester now cu db newId]
    by simp
next
  fix r assume "fst (create_route now cu us db newId requesterAddress body) = Inr r"
  then show "status r = Pending \<or> status r = Expired"
    by (rule create_route_answer)
qed

theorem create_pending_or_expired_witness:
  "map_sum id status
     (fst (create_route 10 Map.empty example_users Map.empty 1 ''0xrequester'' example_body))
     = Inr Pending
   \<and> create_route 10 Map.empty example_users Map.empty 1 ''0xrequester''
       (example_body\<lparr>body_purpose := None\<rparr>)
     = (Inl (HttpError 400 ''Missing required fields''), Map.empty)"
  using create_pending_or_expired
          [where body = example_body and t = 50 and us = example_users
             and dataOwner = example_owner and requester = example_requester
             and requesterAddress = "''0xrequester''" and now = 10 and db = Map.empty
             and newId = 1 and cu = Map.empty]
        create_pending_or_expired
          [where body = "example_body\<lparr>body_purpose := None\<rparr>" and us = example_users
             and requesterAddress = "''0xrequester''" and now = 10 and db = Map.empty
             and newId = 1 and cu = Map.empty]
  by (auto simp: example_body_def example_users_def falsy_def text_of_def
        findByAddress_def toLowerCase_def new_ConsentRequest_def validate_def trim_def
        is_space_def dataType_enum_def accessLevel_enum_def emitToUser_def)

text \<open>
  The query is trimmed as the stored address is: an owner address given with white
  space around it finds the owner.
\<close>

lemma findByAddress_padded: "findByAddress example_users '' 0xOwner '' = Some example_owner"
  by (simp add: findByAddress_def toLowerCase_def trim_def is_space_def example_users_def)


section \<open>Proof service: data-access proofs\<close>

lemma length_hex_byte: "length (hex_byte b) = 2"
  by (simp add: hex_byte_def)

lemma length_toHex: "length (toHex bs) = 2 * length bs"
  by (induction bs) (simp_all add: toHex_def length_hex_byte)

lemma length_randomBytes: "length (randomBytes n rnd) = n"
  by (simp add: randomBytes_def)

lemma nonce_generateDataAccessProof:
  "\<exists>n. nonce (generateDataAccessProof H rnd now u d a) = Some n \<and> length n = 32"
  by (simp add: generateDataAccessProof_def length_toHex length_randomBytes)

lemma accessGranted_iff:
  "accessGranted (verifyDataAccessProof H now p userId dt al) \<longleftrightarrow>
     accessHash p = Some (H (userId @ ''-'' @ dt @ ''-'' @ al))
     \<and> (\<exists>t. timestamp p = Some t \<and> now - t < 3600000)
     \<and> (\<exists>n. nonce p = Some n \<and> length n = 32)"
  by (cases "timestamp p"; cases "nonce p")
     (auto simp: verifyDataAccessProof_def Let_def)

text \<open>
  Claim C6.  For every proof record and inputs, \<^verbatim>\<open>verifyDataAccessProof\<close> returns
  \<^verbatim>\<open>accessGranted = true\<close> if and only if the proof's \<^verbatim>\<open>accessHash\<close> equals the
  hash of the string \<^verbatim>\<open>userId-dataType-accessLevel\<close>, and the proof's timestamp is
  less than one hour (3600000 ms) before the current time, and the proof's nonce has
  exactly 32 characters.  The \<^verbatim>\<open>isValid\<close> flag of the answer is the same.
\<close>

theorem data_access_granted_iff:
  "(accessGranted (verifyDataAccessProof H now p userId dt al) \<longleftrightarrow>
      accessHash p = Some (H (userId @ ''-'' @ dt @ ''-'' @ al))
      \<and> (\<exists>t. timestamp p = Some t \<and> now - t < 60 * 60 * 1000)
      \<and> (\<exists>n. nonce p = Some n \<and> length n = 32))
   \<and> ac_isValid (verifyDataAccessProof H now p userId dt al)
       = accessGranted (verifyDataAccessProof H now p userId dt al)"
proof
  show "accessGranted (verifyDataAccessProof H now p userId dt al) \<longleftrightarrow>
      accessHash p = Some (H (userId @ ''-'' @ dt @ ''-'' @ al))
      \<and> (\<exists>t. timestamp p = Some t \<and> now - t < 60 * 60 * 1000)
      \<and> (\<exists>n. nonce p = Some n \<and> length n = 32)"
    using accessGranted_iff[of H now p userId dt al] by simp
  show "ac_isValid (verifyDataAccessProof H now p userId dt al)
       = accessGranted (verifyDataAccessProof H now p userId dt al)"
    by (cases "nonce p") (simp_all add: verifyDataAccessProof_def Let_def)
qed

theorem data_access_granted_iff_witness:
  "accessGranted (verifyDataAccessProof example_hash 1000
      \<lparr>accessHash = Some ''#alice-medical-read'', commitments = [], proof_isValid = False,
       timestamp = Some 900, nonce = Some ''0123456789abcdef0123456789abcdef''\<rparr>
      ''alice'' ''medical'' ''read'')
   \<and> \<not> accessGranted (verifyDataAccessProof example_hash 1000
      \<lparr>accessHash = Some ''#alice-medical-read'', commitments = [], proof_isValid = False,
       timestamp = Some 900, nonce = Some ''0123456789abcdef''\<rparr>
      ''alice'' ''medical'' ''read'')
   \<and> \<not> accessGranted (verifyDataAccessProof example_hash 3601000
      \<lparr>accessHash = Some ''#alice-medical-read'', commitments = [], proof_isValid = False,
       timestamp = Some 900, nonce = Some ''0123456789abcdef0123456789abcdef''\<rparr>
      ''alice'' ''medical'' ''read'')"
  using data_access_granted_iff
          [where H = example_hash and now = 1000 and userId = "''alice''" and dt = "''medical''"
             and al = "''read''"
             and p = "\<lparr>accessHash = Some ''#alice-medical-read'', commitments = [],
                        proof_isValid = False, timestamp = Some 900,
                        nonce = Some ''0123456789abcdef0123456789abcdef''\<rparr>"]
        data_access_granted_iff
          [where H = example_hash and now = 1000 and userId = "''alice''" and dt = "''medical''"
             and al = "''read''"
             and p = "\<lparr>accessHash = Some ''#alice-medical-read'', commitments = [],
                        proof_isValid = False, timestamp = Some 900,
                        nonce = Some ''0123456789abcdef''\<rparr>"]
        data_access_granted_iff
          [where H = example_hash and now = 3601000 and userId = "''alice''"
             and dt = "''medical''" and al = "''read''"
             and p = "\<lparr>accessHash = Some ''#alice-medical-read'', commitments = [],
                        proof_isValid = False, timestamp = Some 900,
                        nonce = Some ''0123456789abcdef0123456789abcdef''\<rparr>"]
  by (simp add: example_hash_def)


section \<open>Proof service: general proofs\<close>

lemma pc_isValid_iff:
  "pc_isValid (verifyProof H stringify now p d) \<longleftrightarrow>
     proof_isValid p
     \<and> (\<exists>t. timestamp p = Some t \<and> now - t < 86400000)
     \<and> (\<exists>n. nonce p = Some n \<and> length n = 32)"
  by (cases "timestamp p"; cases "nonce p")
     (auto simp: verifyProof_def Let_def)

text \<open>
  Claim C7.  The \<^verbatim>\<open>isValid\<close> answer of \<^verbatim>\<open>verifyProof\<close> does not depend on the
  verification data: for every proof and any two verification-data values the answers
  agree, because \<^verbatim>\<open>isValid\<close> is the proof's stored flag, and its timestamp being
  less than 24 hours (86400000 ms) old, and its nonce having length 32; the hash
  computed from the verification data is compared with nothing.
\<close>

theorem verifyProof_ignores_verificationData:
  "pc_isValid (verifyProof H stringify now p d) = pc_isValid (verifyProof H stringify now p d')
   \<and> (pc_isValid (verifyProof H stringify now p d) \<longleftrightarrow>
        proof_isValid p
        \<and> (\<exists>t. timestamp p = Some t \<and> now - t < 24 * 60 * 60 * 1000)
        \<and> (\<exists>n. nonce p = Some n \<and> length n = 32))"
  using pc_isValid_iff[of H stringify now p d] pc_isValid_iff[of H stringify now p d']
  by simp

theorem verifyProof_ignores_verificationData_witness:
  "pc_isValid (verifyProof example_hash id 1000
      \<lparr>accessHash = None, commitments = [(''ageHash'', ''#17'')], proof_isValid = True,
       timestamp = Some 900, nonce = Some ''0123456789abcdef0123456789abcdef''\<rparr>
      ''{\"minimumAge\":18}'')
   \<and> pc_isValid (verifyProof example_hash id 1000
      \<lparr>accessHash = None, commitments = [(''ageHash'', ''#17'')], proof_isValid = True,
       timestamp = Some 900, nonce = Some ''0123456789abcdef0123456789abcdef''\<rparr>
      ''{\"minimumAge\":99}'')"
  using verifyProof_ignores_verificationData
          [where H = example_hash and stringify = id and now = 1000
             and d = "''{\"minimumAge\":18}''" and d' = "''{\"minimumAge\":99}''"
             and p = "\<lparr>accessHash = None, commitments = [(''ageHash'', ''#17'')],
                        proof_isValid = True, timestamp = Some 900,
                        nonce = Some ''0123456789abcdef0123456789abcdef''\<rparr>"]
  by auto


section \<open>Proof service: the Merkle tree\<close>

lemma length_pair_level: "length (pair_level H ls) = (length ls + 1) div 2"
  by (induction H ls rule: pair_level.induct) simp_all

lemma nth_pair_level:
  "i < (length ls + 1) div 2 \<Longrightarrow>
     pair_level H ls ! i
       = H (ls ! (2 * i) @ (if 2 * i + 1 < length ls then ls ! (2 * i + 1) else ls ! (2 * i)))"
proof (induction H ls arbitrary: i rule: pair_level.induct)
  case (1 H)
  then show ?case by simp
next
  case (2 H left)
  then show ?case by simp
next
  case (3 H left right rest)
  show ?case
  proof (cases i)
    case 0
    then show ?thesis by simp
  next
    case (Suc j)
    with "3.prems" have "j < (length rest + 1) div 2" by simp
    then have "pair_level H rest ! j
       = H (rest ! (2 * j) @ (if 2 * j + 1 < length rest then rest ! (2 * j + 1) else rest ! (2 * j)))"
      by (rule "3.IH")
    with Suc show ?thesis by simp
  qed
qed

lemma pair_level_level_above: "pair_level H ls = level_above H ls"
proof (rule nth_equalityI)
  show "length (pair_level H ls) = length (level_above H ls)"
    by (simp add: length_pair_level level_above_def)
next
  fix i assume "i < length (pair_level H ls)"
  then have i: "i < (length ls + 1) div 2" by (simp add: length_pair_level)
  then show "pair_level H ls ! i = level_above H ls ! i"
    by (simp add: nth_pair_level level_above_def)
qed

lemma buildMerkleTree_single: "buildMerkleTree H [x] = Inr x"
  by (simp add: buildMerkleTree.simps)

lemma buildMerkleTree_three:
  "buildMerkleTree H [x, y, z] = Inr (H (H (x @ y) @ H (z @ z)))"
proof -
  have "buildMerkleTree H [x, y, z] = buildMerkleTree H [H (x @ y), H (z @ z)]"
    by (subst buildMerkleTree.simps) simp
  also have "\<dots> = buildMerkleTree H [H (H (x @ y) @ H (z @ z))]"
    by (subst buildMerkleTree.simps) simp
  finally show ?thesis by (simp add: buildMerkleTree_single)
qed

lemma buildMerkleTree_empty: "buildMerkleTree H [] = Inl RangeError"
  by (simp add: buildMerkleTree.simps)

text \<open>
  The root returned is what remains after as many levels as the height says, each level
  being the level above the one before.
\<close>

lemma buildMerkleTree_root:
  "ls \<noteq> [] \<Longrightarrow>
     \<exists>r. buildMerkleTree H ls = Inr r \<and> (level_above H ^^ ceillog2 (length ls)) ls = [r]"
proof (induction H ls rule: buildMerkleTree.induct)
  case (1 H ls)
  show ?case
  proof (cases "length ls = 1")
    case True
    then obtain x where "ls = [x]" by (cases ls) auto
    then show ?thesis by (simp add: buildMerkleTree_single)
  next
    case False
    with "1.prems" have two: "2 \<le> length ls" by (cases ls) (auto simp: Suc_le_eq)
    then have ne: "pair_level H ls \<noteq> []"
      using length_pair_level[of H ls] by auto
    with "1.IH" False "1.prems" obtain r where
      r: "buildMerkleTree H (pair_level H ls) = Inr r"
      and lv: "(level_above H ^^ ceillog2 (length (pair_level H ls))) (pair_level H ls) = [r]"
      by blast
    have build: "buildMerkleTree H ls = Inr r"
      using False "1.prems" r by (subst buildMerkleTree.simps) simp
    have "ceillog2 (length ls) = Suc (ceillog2 ((length ls + 1) div 2))"
      using two ceillog2_rec[of "length ls"] by simp
    then have "(level_above H ^^ ceillog2 (length ls)) ls
                 = (level_above H ^^ ceillog2 ((length ls + 1) div 2)) (level_above H ls)"
      by (simp add: funpow_swap1)
    also have "\<dots> = [r]"
    proof -
      have "length (pair_level H ls) = (length ls + 1) div 2"
        by (rule length_pair_level)
      with lv show ?thesis by (simp only: pair_level_level_above)
    qed
    finally show ?thesis using build by simp
  qed
qed

lemma levels_below_height:
  "k < ceillog2 (length ls) \<Longrightarrow> 1 < length ((level_above H ^^ k) ls)"
proof (induction k arbitrary: ls)
  case 0
  show ?case
  proof (rule ccontr)
    assume "\<not> 1 < length ((level_above H ^^ 0) ls)"
    then have "length ls \<le> 1" by simp
    then have "ceillog2 (length ls) = 0" by (rule ceillog2_le1_eq_0)
    with "0.prems" show False by simp
  qed
next
  case (Suc k)
  have two: "\<not> length ls \<le> 1"
  proof
    assume "length ls \<le> 1"
    then have "ceillog2 (length ls) = 0" by (rule ceillog2_le1_eq_0)
    with Suc.prems show False by simp
  qed
  then have "ceillog2 (length ls) = Suc (ceillog2 ((length ls + 1) div 2))"
    using ceillog2_rec[of "length ls"] by simp
  with Suc.prems have "k < ceillog2 (length (level_above H ls))"
    by (simp add: level_above_def)
  then have "1 < length ((level_above H ^^ k) (level_above H ls))"
    by (rule Suc.IH)
  then show ?case by (simp add: funpow_swap1)
qed

lemma ceillog2_ceiling: "0 < n \<Longrightarrow> int (ceillog2 n) = \<lceil>log 2 (real n)\<rceil>"
proof -
  assume "0 < n"
  then have "0 \<le> log 2 (real n)" by simp
  then have "0 \<le> \<lceil>log 2 (real n)\<rceil>" by linarith
  with \<open>0 < n\<close> show ?thesis by (simp add: ceillog2_def)
qed

lemma generateMerkleTree_returns:
  assumes "xs \<noteq> []"
  shows "\<exists>r. generateMerkleTree H stringify xs
            = Inr \<lparr>merkle_root = r, leaves = map (\<lambda>d. H (stringify d)) xs,
                   treeHeight = int (ceillog2 (length xs))\<rparr>
          \<and> (level_above H ^^ ceillog2 (length xs)) (map (\<lambda>d. H (stringify d)) xs) = [r]"
proof -
  from assms have "map (\<lambda>d. H (stringify d)) xs \<noteq> []" by simp
  then obtain r where "buildMerkleTree H (map (\<lambda>d. H (stringify d)) xs) = Inr r"
    and "(level_above H ^^ ceillog2 (length (map (\<lambda>d. H (stringify d)) xs)))
           (map (\<lambda>d. H (stringify d)) xs) = [r]"
    using buildMerkleTree_root by blast
  then show ?thesis by (simp add: generateMerkleTree_def)
qed

text \<open>
  Claim C8.  \<^verbatim>\<open>generateMerkleTree\<close> hashes pairwise bottom-up, a last single leaf
  with itself.  For a single item the root is the hash of that item.  For three items
  a, b, c the root is hash(hash(hash(a) + hash(b)) + hash(hash(c) + hash(c))).  For a
  list of n items, n at least 1, a tree is returned whose leaves are the hashes of the
  items, whose reported height is the ceiling of the binary logarithm of n, and whose
  root is the one entry left after taking the level above that many times, starting
  from the leaves; after fewer times more than one entry is left.
\<close>

theorem merkle_root_and_height:
  "map_sum id merkle_root (generateMerkleTree H stringify [a]) = Inr (H (stringify a))
   \<and> map_sum id merkle_root (generateMerkleTree H stringify [a, b, c])
       = Inr (H (H (H (stringify a) @ H (stringify b)) @ H (H (stringify c) @ H (stringify c))))
   \<and> (xs \<noteq> [] \<longrightarrow>
        (\<exists>t. generateMerkleTree H stringify xs = Inr t
           \<and> leaves t = map (\<lambda>d. H (stringify d)) xs
           \<and> treeHeight t = \<lceil>log 2 (real (length xs))\<rceil>
           \<and> (level_above H ^^ nat (treeHeight t)) (leaves t) = [merkle_root t]
           \<and> (\<forall>k < nat (treeHeight t). 1 < length ((level_above H ^^ k) (leaves t)))))"
proof (intro conjI impI)
  show "map_sum id merkle_root (generateMerkleTree H stringify [a]) = Inr (H (stringify a))"
    by (simp add: generateMerkleTree_def buildMerkleTree_single)
  show "map_sum id merkle_root (generateMerkleTree H stringify [a, b, c])
       = Inr (H (H (H (stringify a) @ H (stringify b)) @ H (H (stringify c) @ H (stringify c))))"
    by (simp add: generateMerkleTree_def buildMerkleTree_three)
  assume ne: "xs \<noteq> []"
  let ?ls = "map (\<lambda>d. H (stringify d)) xs"
  let ?h = "ceillog2 (length xs)"
  from ne obtain r where
    gen: "generateMerkleTree H stringify xs
            = Inr \<lparr>merkle_root = r, leaves = ?ls, treeHeight = int ?h\<rparr>"
    and root: "(level_above H ^^ ?h) ?ls = [r]"
    using generateMerkleTree_returns by blast
  from ne have height: "int ?h = \<lceil>log 2 (real (length xs))\<rceil>"
    by (simp add: ceillog2_ceiling)
  have below: "\<forall>k < ?h. 1 < length ((level_above H ^^ k) ?ls)"
    using levels_below_height[of _ ?ls H] by simp
  show "\<exists>t. generateMerkleTree H stringify xs = Inr t
           \<and> leaves t = map (\<lambda>d. H (stringify d)) xs
           \<and> treeHeight t = \<lceil>log 2 (real (length xs))\<rceil>
           \<and> (level_above H ^^ nat (treeHeight t)) (leaves t) = [merkle_root t]
           \<and> (\<forall>k < nat (treeHeight t). 1 < length ((level_above H ^^ k) (leaves t)))"
  proof (intro exI[of _ "\<lparr>merkle_root = r, leaves = ?ls, treeHeight = int ?h\<rparr>"] conjI)
    show "generateMerkleTree H stringify xs
            = Inr \<lparr>merkle_root = r, leaves = ?ls, treeHeight = int ?h\<rparr>"
      by (rule gen)
    show "leaves \<lparr>merkle_root = r, leaves = ?ls, treeHeight = int ?h\<rparr> = ?ls" by simp
    show "treeHeight \<lparr>merkle_root = r, leaves = ?ls, treeHeight = int ?h\<rparr>
            = \<lceil>log 2 (real (length xs))\<rceil>"
      using height by simp
    show "(level_above H ^^ nat (treeHeight \<lparr>merkle_root = r, leaves = ?ls, treeHeight = int ?h\<rparr>))
            (leaves \<lparr>merkle_root = r, leaves = ?ls, treeHeight = int ?h\<rparr>)
          = [merkle_root \<lparr>merkle_root = r, leaves = ?ls, treeHeight = int ?h\<rparr>]"
      using root by simp
    show "\<forall>k < nat (treeHeight \<lparr>merkle_root = r, leaves = ?ls, treeHeight = int ?h\<rparr>).
            1 < length ((level_above H ^^ k)
                  (leaves \<lparr>merkle_root = r, leaves = ?ls, treeHeight = int ?h\<rparr>))"
      using below by simp
  qed
qed

lemma upt_two: "[0..<2] = [0, 1]"
  by (simp add: upt_conv_Cons)

lemma level_above_of_four: "level_above H [w, x, y, z] = [H (w @ x), H (y @ z)]"
proof -
  have "(length [w, x, y, z] + 1) div 2 = 2" by simp
  then show ?thesis by (simp add: level_above_def upt_two)
qed

lemma level_above_of_two: "level_above H [x, y] = [H (x @ y)]"
  by (simp add: level_above_def)

lemma level_above_twice_four:
  "(level_above H ^^ 2) [w, x, y, z] = [H (H (w @ x) @ H (y @ z))]"
  by (simp add: numeral_2_eq_2 level_above_of_four level_above_of_two)

lemma ceiling_log2_four: "\<lceil>log 2 (real (length [w, x, y, z]))\<rceil> = 2"
proof -
  have "ceillog2 (2 ^ 2) = 2" by (rule ceillog2_2_power)
  moreover have "length [w, x, y, z] = 2 ^ 2" by simp
  ultimately have "ceillog2 (length [w, x, y, z]) = 2" by (simp only:)
  then show ?thesis using ceillog2_ceiling[of "length [w, x, y, z]"] by simp
qed

theorem merkle_root_and_height_witness:
  "map_sum id merkle_root (generateMerkleTree example_hash id [''a'', ''b'', ''c'', ''d''])
     = Inr ''###a#b##c#d''
   \<and> map_sum id treeHeight (generateMerkleTree example_hash id [''a'', ''b'', ''c'', ''d''])
     = Inr 2
   \<and> map_sum id merkle_root (generateMerkleTree example_hash id [''a'', ''b'', ''c''])
     = Inr ''###a#b##c#c''"
proof -
  from merkle_root_and_height
         [where H = example_hash and stringify = id and a = "''a''" and b = "''b''"
            and c = "''c''" and xs = "[''a'', ''b'', ''c'', ''d'']"]
  obtain t where gen: "generateMerkleTree example_hash id [''a'', ''b'', ''c'', ''d''] = Inr t"
    and lv: "leaves t = map (\<lambda>d. example_hash (id d)) [''a'', ''b'', ''c'', ''d'']"
    and h: "treeHeight t = \<lceil>log 2 (real (length [''a'', ''b'', ''c'', ''d'']))\<rceil>"
    and root: "(level_above example_hash ^^ nat (treeHeight t)) (leaves t) = [merkle_root t]"
    and three: "map_sum id merkle_root (generateMerkleTree example_hash id [''a'', ''b'', ''c''])
       = Inr (example_hash (example_hash (example_hash (id ''a'') @ example_hash (id ''b''))
                @ example_hash (example_hash (id ''c'') @ example_hash (id ''c''))))"
    by blast
  from h have h2: "treeHeight t = 2" by (simp only: ceiling_log2_four)
  from root lv have "(level_above example_hash ^^ 2)
        [example_hash ''a'', example_hash ''b'', example_hash ''c'', example_hash ''d'']
      = [merkle_root t]"
    by (simp add: h2)
  then have "merkle_root t = ''###a#b##c#d''"
    by (simp add: level_above_twice_four example_hash_def)
  with gen h2 three show ?thesis by (simp add: example_hash_def)
qed

text \<open>On the empty list nothing is returned: the recursion never reaches a single leaf.\<close>

lemma generateMerkleTree_empty: "generateMerkleTree H stringify [] = Inl RangeError"
  by (simp add: generateMerkleTree_def buildMerkleTree_empty)


section \<open>Security middleware: data access\<close>

lemma fresh_proof_granted:
  assumes "t2 - t1 < 3600000"
  shows "accessGranted (verifyDataAccessProof H t2 (generateDataAccessProof H rnd t1 u d a) u d a)"
proof -
  let ?p = "generateDataAccessProof H rnd t1 u d a"
  have "accessHash ?p = Some (H (u @ ''-'' @ d @ ''-'' @ a))"
    by (simp add: generateDataAccessProof_def)
  moreover have "\<exists>t. timestamp ?p = Some t \<and> t2 - t < 3600000"
    using assms by (simp add: generateDataAccessProof_def)
  moreover have "\<exists>n. nonce ?p = Some n \<and> length n = 32"
    by (rule nonce_generateDataAccessProof)
  ultimately show ?thesis
    by (simp only: accessGranted_iff simp_thms)
qed

lemma verifyDataAccess_cases:
  assumes "t2 - t1 < 3600000"
  shows "verifyDataAccess H rnd t1 t2 ex cid ua dt
           = Respond 400 ''Data CID, user address, and data type required''
       \<or> verifyDataAccess H rnd t1 t2 ex cid ua dt = Respond 404 ''Data not found on IPFS''
       \<or> verifyDataAccess H rnd t1 t2 ex cid ua dt
           = Respond 500 ''Data access verification failed''
       \<or> (\<exists>u d. ua = Text u \<and> dt = Text d
             \<and> verifyDataAccess H rnd t1 t2 ex cid ua dt
                 = Next (generateDataAccessProof H rnd t1 u d ''read''))"
proof (cases "field_falsy cid \<or> field_falsy ua \<or> field_falsy dt")
  case True
  then show ?thesis by (simp add: verifyDataAccess_def)
next
  case present: False
  show ?thesis
  proof (cases ex)
    case False
    with present show ?thesis by (simp add: verifyDataAccess_def)
  next
    case True
    show ?thesis
    proof (cases ua)
      case (Text u)
      show ?thesis
      proof (cases dt)
        case (Text d)
        with \<open>ua = Text u\<close> present True fresh_proof_granted[OF assms, of H rnd u d "''read''"]
        show ?thesis by (simp add: verifyDataAccess_def Let_def)
      qed (use present True \<open>ua = Text u\<close> in \<open>simp_all add: verifyDataAccess_def\<close>)
    qed (use present True in \<open>simp_all add: verifyDataAccess_def\<close>)
  qed
qed

text \<open>
  Claim C4.  In \<^verbatim>\<open>verifyDataAccess\<close> the answer 403 (access denied to this data) is
  unreachable: the proof that is verified is generated in the same call from the same
  user address, data type and the level \<^verbatim>\<open>read\<close>, so, less than one hour passing
  between the two clock readings of the call, the check grants access.  For every call
  in which content address, user address and data type are present (strings here) and
  the data exists in storage, the middleware passes the request on with the fresh proof.
\<close>

theorem access_denied_unreachable:
  "t2 - t1 < 60 * 60 * 1000 \<longrightarrow>
     (\<forall>msg. verifyDataAccess H rnd t1 t2 ex cid ua dt \<noteq> Respond 403 msg)
     \<and> (\<not> field_falsy cid \<and> u \<noteq> [] \<and> d \<noteq> [] \<and> ex \<longrightarrow>
          verifyDataAccess H rnd t1 t2 ex cid (Text u) (Text d)
            = Next (generateDataAccessProof H rnd t1 u d ''read''))"
proof (intro impI conjI allI)
  fix msg
  assume "t2 - t1 < 60 * 60 * 1000"
  then have t: "t2 - t1 < 3600000" by simp
  show "verifyDataAccess H rnd t1 t2 ex cid ua dt \<noteq> Respond 403 msg"
    using verifyDataAccess_cases[OF t, of H rnd ex cid ua dt] by auto
next
  assume "t2 - t1 < 60 * 60 * 1000"
  then have t: "t2 - t1 < 3600000" by simp
  assume "\<not> field_falsy cid \<and> u \<noteq> [] \<and> d \<noteq> [] \<and> ex"
  then show "verifyDataAccess H rnd t1 t2 ex cid (Text u) (Text d)
            = Next (generateDataAccessProof H rnd t1 u d ''read'')"
    using fresh_proof_granted[OF t, of H rnd u d "''read''"]
    by (simp add: verifyDataAccess_def Let_def)
qed

theorem access_denied_unreachable_witness:
  "verifyDataAccess example_hash example_entropy 1000 1005 True (Text ''Qm1'')
       (Text ''0xstranger'') (Text ''medical'')
     = Next (generateDataAccessProof example_hash example_entropy 1000 ''0xstranger''
               ''medical'' ''read'')"
  using access_denied_unreachable
          [where H = example_hash and rnd = example_entropy and ?t1.0 = 1000 and ?t2.0 = 1005
             and ex = True and cid = "Text ''Qm1''" and u = "''0xstranger''"
             and d = "''medical''"]
  by simp


section \<open>Credential service: presentations and revocation\<close>

lemma verifyCredential_valid_iff:
  "vc_isValid (verifyCredential w now c) \<longleftrightarrow>
     (\<exists>d. jwt_verify w c = Inr d \<and> \<not> token_expired now d
          \<and> did_ok (resolveDID w (jwt_iss d)) \<and> did_ok (resolveDID w (jwt_sub d)))"
  by (cases "jwt_verify w c") (simp_all add: verifyCredential_def)

lemma verifyPresentation_valid_iff:
  "vp_isValid (verifyPresentation w now p challenge) \<longleftrightarrow>
     (\<exists>d creds. jwt_verify w p = Inr d \<and> \<not> token_expired now d
          \<and> jwt_nonce d = Some challenge
          \<and> did_ok (resolveDID w (jwt_iss d))
          \<and> jwt_vp d = Some creds
          \<and> (\<forall>c \<in> set creds. vc_isValid (verifyCredential w now c)))"
proof (cases "jwt_verify w p")
  case (Inl msg)
  then show ?thesis by (simp add: verifyPresentation_def)
next
  case (Inr d)
  then show ?thesis
    by (cases "jwt_vp d") (simp_all add: verifyPresentation_def Let_def list_all_iff)
qed

lemma resolveDID_users: "resolveDID (w\<lparr>users := us\<rparr>) d = resolveDID w d"
  by (simp add: resolveDID_def)

lemma verifyCredential_users: "verifyCredential (w\<lparr>users := us\<rparr>) = verifyCredential w"
  by (intro ext) (simp add: verifyCredential_def resolveDID_users cong: sum.case_cong if_cong)

lemma verifyPresentation_users:
  "verifyPresentation (w\<lparr>users := us\<rparr>) now p challenge = verifyPresentation w now p challenge"
  by (simp add: verifyPresentation_def resolveDID_users verifyCredential_users
        cong: sum.case_cong option.case_cong if_cong)

lemma revoke_credential_route_world:
  assumes "revoke_credential_route w address h = Inr w'"
  shows "\<exists>us. w' = w\<lparr>users := us\<rparr>"
  using assms
  by (auto simp: revoke_credential_route_def split: if_splits option.splits sum.splits)

lemma example_revocation:
  "revoke_credential_route example_world ''0xholder'' ''#vc.jwt'' = Inr example_world_revoked"
  by (simp add: revoke_credential_route_def example_world_def example_world_revoked_def
        findByAddress_def toLowerCase_def trim_def is_space_def revokeCredential_def
        example_holder_def example_credential_def)

lemma example_presentation_valid:
  "vp_isValid (verifyPresentation example_world_revoked 1000000 ''vp.jwt'' ''challenge-1'')"
  by (simp add: verifyPresentation_def verifyCredential_def example_world_revoked_def
        example_jwt_verify_def example_registry_def token_expired_def resolveDID_def
        did_ok_def AddressZero_def Let_def)

text \<open>
  Claim C2, as the specification states it, fails.  The holder's stored credential is
  revoked through the route; the presentation wrapping that credential is not expired
  (it expires at second 2000, the clock reads second 1000) and the challenge equals its
  nonce; \<^verbatim>\<open>verifyPresentation\<close> in the world after the revocation answers
  \<^verbatim>\<open>isValid = true\<close>.
\<close>

theorem revoked_credential_counterexample:
  "revoke_credential_route example_world ''0xholder'' ''#vc.jwt'' = Inr example_world_revoked
   \<and> map_option (\<lambda>u. map isRevoked (ssiCredentials u)) (users example_world_revoked ''0xholder'')
       = Some [True]
   \<and> vp_isValid (verifyPresentation example_world_revoked 1000000 ''vp.jwt'' ''challenge-1'')"
  using example_revocation example_presentation_valid
  by (simp add: example_world_revoked_def example_holder_def example_credential_def)

text \<open>
  Claim C2, amended.  \<^verbatim>\<open>verifyPresentation\<close> answers \<^verbatim>\<open>isValid = true\<close> exactly
  when the presentation token verifies, is not expired, carries the supplied challenge
  as its nonce, has a holder DID that resolves, and every wrapped credential token
  verifies, is not expired and has issuer and subject DIDs that resolve.  Revocation is
  not among the checks: the answer is the same whatever the user collection holds, in
  particular before and after a credential is revoked through the route.
\<close>

theorem presentation_validity_ignores_revocation:
  "(vp_isValid (verifyPresentation w now p challenge) \<longleftrightarrow>
      (\<exists>d creds. jwt_verify w p = Inr d \<and> \<not> token_expired now d
          \<and> jwt_nonce d = Some challenge
          \<and> did_ok (resolveDID w (jwt_iss d))
          \<and> jwt_vp d = Some creds
          \<and> (\<forall>c \<in> set creds.
                \<exists>dc. jwt_verify w c = Inr dc \<and> \<not> token_expired now dc
                   \<and> did_ok (resolveDID w (jwt_iss dc)) \<and> did_ok (resolveDID w (jwt_sub dc)))))
   \<and> verifyPresentation (w\<lparr>users := us\<rparr>) now p challenge = verifyPresentation w now p challenge
   \<and> (\<forall>w'. revoke_credential_route w address h = Inr w' \<longrightarrow>
          verifyPresentation w' now p challenge = verifyPresentation w now p challenge)"
proof (intro conjI allI impI)
  show "vp_isValid (verifyPresentation w now p challenge) \<longleftrightarrow>
      (\<exists>d creds. jwt_verify w p = Inr d \<and> \<not> token_expired now d
          \<and> jwt_nonce d = Some challenge
          \<and> did_ok (resolveDID w (jwt_iss d))
          \<and> jwt_vp d = Some creds
          \<and> (\<forall>c \<in> set creds.
                \<exists>dc. jwt_verify w c = Inr dc \<and> \<not> token_expired now dc
                   \<and> did_ok (resolveDID w (jwt_iss dc)) \<and> did_ok (resolveDID w (jwt_sub dc))))"
    by (simp only: verifyPresentation_valid_iff verifyCredential_valid_iff)
  show "verifyPresentation (w\<lparr>users := us\<rparr>) now p challenge = verifyPresentation w now p challenge"
    by (rule verifyPresentation_users)
next
  fix w' assume "revoke_credential_route w address h = Inr w'"
  then obtain us' where "w' = w\<lparr>users := us'\<rparr>"
    using revoke_credential_route_world by blast
  then show "verifyPresentation w' now p challenge = verifyPresentation w now p challenge"
    by (simp add: verifyPresentation_users)
qed

theorem presentation_validity_ignores_revocation_witness:
  "verifyPresentation example_world_revoked 1000000 ''vp.jwt'' ''challenge-1''
     = verifyPresentation example_world 1000000 ''vp.jwt'' ''challenge-1''
   \<and> \<not> vp_isValid (verifyPresentation example_world 1000000 ''vp.jwt'' ''challenge-2'')"
proof -
  have "jwt_verify example_world ''vp.jwt''
          = Inr \<lparr>jwt_iss = ''did:ethr:0xholder'', jwt_sub = [],
                jwt_exp = Some 2000, jwt_nbf = 950, jwt_nonce = Some ''challenge-1'',
                jwt_vp = Some [''vc.jwt'']\<rparr>"
    by (simp add: example_world_def example_jwt_verify_def)
  then show ?thesis
    using presentation_validity_ignores_revocation
            [where w = example_world and now = 1000000 and p = "''vp.jwt''"
               and challenge = "''challenge-1''" and address = "''0xholder''"
               and h = "''#vc.jwt''"]
          presentation_validity_ignores_revocation
            [where w = example_world and now = 1000000 and p = "''vp.jwt''"
               and challenge = "''challenge-2''"]
          example_revocation
    by simp
qed


section \<open>Anomaly monitor: score and risk level\<close>

lemma severity_weight_nonneg: "0 \<le> severity_weight s"
  by (simp add: severity_weight_def)

lemma severity_weight_le: "severity_weight s \<le> 30"
  by (simp add: severity_weight_def)

lemma foldl_severity:
  "foldl (\<lambda>score a. score + severity_weight (severity a)) acc xs
     = acc + sum_list (map (\<lambda>a. severity_weight (severity a)) xs)"
  by (induction xs arbitrary: acc) simp_all

lemma calculateAnomalyScore_eq: "calculateAnomalyScore xs ua = min (raw_score xs ua) 100"
  by (simp add: calculateAnomalyScore_def raw_score_def foldl_severity Let_def)

lemma sum_weights_nonneg: "0 \<le> sum_list (map (\<lambda>a. severity_weight (severity a)) xs)"
  by (induction xs) (simp_all add: severity_weight_nonneg)

lemma raw_score_nonneg: "0 \<le> raw_score xs ua"
  using sum_weights_nonneg[of xs] by (simp add: raw_score_def)

lemma sum_weights_subseq:
  "subseq xs ys \<Longrightarrow>
     sum_list (map (\<lambda>a. severity_weight (severity a)) xs)
       \<le> sum_list (map (\<lambda>a. severity_weight (severity a)) ys)"
proof (induction rule: list_emb.induct)
  case (list_emb_Nil ys)
  show ?case using sum_weights_nonneg[of ys] by simp
next
  case (list_emb_Cons xs ys y)
  then show ?case using severity_weight_nonneg[of "severity y"] by simp
next
  case (list_emb_Cons2 x y xs ys)
  then show ?case by simp
qed

lemma sum_weights_heavier:
  "list_all2 no_lighter xs ys \<Longrightarrow>
     sum_list (map (\<lambda>a. severity_weight (severity a)) xs)
       \<le> sum_list (map (\<lambda>a. severity_weight (severity a)) ys)"
  by (induction rule: list_all2_induct) (simp_all add: no_lighter_def)

lemma raw_score_mono:
  assumes "list_all2 no_lighter xs zs" and "subseq zs ys"
  shows "raw_score xs ua \<le> raw_score ys ua"
  using sum_weights_heavier[OF assms(1)] sum_weights_subseq[OF assms(2)]
  by (simp add: raw_score_def)

text \<open>
  Claim C9.  The anomaly score is the sum of the severity weights of the triggered
  alerts (critical 30, error 20, warning 10, info 5), plus 15 when the access frequency
  exceeds 10, plus 20 when the data volume exceeds 2000, capped at 100.  The risk level
  is the step function of the score: below 50 low, below 75 medium, below 90 high,
  critical otherwise.  Hence the score lies between 0 and 100 and does not decrease when
  alerts are added or severities are raised.
\<close>

theorem anomaly_score_properties:
  "calculateAnomalyScore xs ua
     = min (sum_list (map (\<lambda>a. severity_weight (severity a)) xs)
            + (if frequency (accessPattern ua) > 10 then 15 else 0)
            + (if dataVolume (accessPattern ua) > 2000 then 20 else 0)) 100
   \<and> severity_weight ''critical'' = 30 \<and> severity_weight ''error'' = 20
   \<and> severity_weight ''warning'' = 10 \<and> severity_weight ''info'' = 5
   \<and> riskLevel (updateAnomalyScore s ua)
       = (if s < 50 then Low else if s < 75 then Medium else if s < 90 then High else Critical)
   \<and> anomalyScore (updateAnomalyScore s ua) = s
   \<and> 0 \<le> calculateAnomalyScore xs ua \<and> calculateAnomalyScore xs ua \<le> 100
   \<and> (list_all2 no_lighter xs zs \<and> subseq zs ys \<longrightarrow>
        calculateAnomalyScore xs ua \<le> calculateAnomalyScore ys ua)"
proof (intro conjI impI)
  show "calculateAnomalyScore xs ua
     = min (sum_list (map (\<lambda>a. severity_weight (severity a)) xs)
            + (if frequency (accessPattern ua) > 10 then 15 else 0)
            + (if dataVolume (accessPattern ua) > 2000 then 20 else 0)) 100"
    by (simp only: calculateAnomalyScore_eq raw_score_def)
  show "severity_weight ''critical'' = 30" "severity_weight ''error'' = 20"
    "severity_weight ''warning'' = 10" "severity_weight ''info'' = 5"
    by (simp_all add: severity_weight_def)
  show "riskLevel (updateAnomalyScore s ua)
       = (if s < 50 then Low else if s < 75 then Medium else if s < 90 then High else Critical)"
    by (simp add: updateAnomalyScore_def)
  show "anomalyScore (updateAnomalyScore s ua) = s"
    by (simp add: updateAnomalyScore_def)
  show "0 \<le> calculateAnomalyScore xs ua"
    using raw_score_nonneg[of xs ua] by (simp add: calculateAnomalyScore_eq)
  show "calculateAnomalyScore xs ua \<le> 100"
    by (simp add: calculateAnomalyScore_eq)
  assume "list_all2 no_lighter xs zs \<and> subseq zs ys"
  then have "raw_score xs ua \<le> raw_score ys ua"
    using raw_score_mono[of xs zs ys ua] by simp
  then show "calculateAnomalyScore xs ua \<le> calculateAnomalyScore ys ua"
    by (simp add: calculateAnomalyScore_eq)
qed

theorem anomaly_score_properties_witness:
  "calculateAnomalyScore [example_alert ''warning''] example_analytics = 25
   \<and> calculateAnomalyScore [example_alert ''warning'']  example_analytics
       \<le> calculateAnomalyScore [example_alert ''error'', example_alert ''critical'']
            example_analytics
   \<and> riskLevel (updateAnomalyScore 80 example_analytics) = High"
  using anomaly_score_properties
          [where xs = "[example_alert ''warning'']" and zs = "[example_alert ''error'']"
             and ys = "[example_alert ''error'', example_alert ''critical'']"
             and ua = example_analytics and s = 80]
  by (simp add: example_alert_def example_analytics_def no_lighter_def severity_weight_def)


end
